theory Spec2Isabelle
  imports Main
begin

section \<open>Data model\<close>

text \<open>
  The JavaScript objects of the threat inference engine as records. A property that may be
  missing from an object is an \<open>option\<close>: \<open>None\<close> is JavaScript's \<open>undefined\<close>.
  String-valued properties are strings or missing; boolean flags are booleans or missing.
\<close>

datatype error = TypeError

text \<open>
  The severities \<open>'Critical'\<close>, \<open>'High'\<close>, \<open>'Medium'\<close> and \<open>'Low'\<close>: every
  severity that the library or the generator writes is one of these four literals.
\<close>

datatype severity = Critical | High | Medium | Low

text \<open>
  A property that the code expects to hold an array. It is missing (\<open>Nullish\<close>); or it
  holds a value that is not an array and has none of the properties \<open>map\<close>,
  \<open>forEach\<close>, \<open>length\<close> (\<open>NonArray\<close>: a number, a boolean, a plain object); or
  it holds an array of objects whose properties are strings, booleans or missing
  (\<open>Arr\<close>); or it holds an array of \<open>n + 1\<close> entries with an entry on which the loops
  over elements and over dataflows raise (\<open>BadEntries n\<close>): an entry that is
  \<open>null\<close>, whose properties cannot be read, or a dataflow whose \<open>protocol\<close> is a
  truthy value that is not a string, on which \<open>toLowerCase\<close> cannot be called.
\<close>

datatype 'a jsarray = Nullish | NonArray | Arr "'a list" | BadEntries nat

fun isArray :: "'a jsarray \<Rightarrow> bool" where
  "isArray (Arr xs) = True"
| "isArray (BadEntries n) = True"
| "isArray Nullish = False"
| "isArray NonArray = False"

fun badEntries :: "'a jsarray \<Rightarrow> bool" where
  "badEntries (BadEntries n) = True"
| "badEntries (Arr xs) = False"
| "badEntries Nullish = False"
| "badEntries NonArray = False"

text \<open>\<open>a?.length || 0\<close>\<close>

fun lengthOrZero :: "'a jsarray \<Rightarrow> nat" where
  "lengthOrZero (Arr xs) = length xs"
| "lengthOrZero (BadEntries n) = Suc n"
| "lengthOrZero Nullish = 0"
| "lengthOrZero NonArray = 0"

record pattern =
  p_id :: string
  p_title :: string
  p_description :: string
  p_category :: string
  p_stride :: "string list option"
  p_severity :: "severity option"
  p_impact :: "string option"
  p_targets :: "string list option"
  p_appliesToDataflow :: "bool option"
  p_protocols :: "string list option"
  p_mitigations :: "string list option"
  p_references :: "string list option"
  p_owaspCategory :: "string option"

record element =
  e_id :: "string option"
  e_name :: "string option"
  e_type :: "string option"
  e_description :: "string option"
  trustLevel :: "string option"
  isExternalEntity :: "bool option"
  isDatastore :: "bool option"
  isProcess :: "bool option"

record dataflow =
  df_id :: "string option"
  df_name :: "string option"
  df_from :: "string option"
  df_to :: "string option"
  df_type :: "string option"
  protocol :: "string option"
  hasSensitiveData :: "bool option"
  isEncrypted :: "bool option"
  isCrossNetwork :: "bool option"
  authentication :: "string option"

record trustBoundary =
  tb_id :: "string option"
  tb_name :: "string option"
  tb_elements :: "string list"

record dfd =
  dfd_id :: "string option"
  dfd_name :: "string option"
  dfd_description :: "string option"
  elements :: "element jsarray"
  dataflows :: "dataflow jsarray"
  trustBoundaries :: "trustBoundary jsarray"

record threat =
  t_id :: "string option"
  title :: string
  description :: string
  category :: string
  stride :: "string list option"
  severity :: severity
  likelihood :: string
  impact :: string
  mitigations :: "string list"
  references :: "string list option"
  owaspCategory :: string
  elementId :: "string option"
  elementName :: "string option"
  elementType :: "string option"
  dataflowId :: "string option"
  dataflowName :: "string option"
  dataflowType :: "string option"

record riskSummary =
  critical :: nat
  high :: nat
  medium :: nat
  low :: nat

record threatModel =
  tm_id :: string
  dfdId :: "string option"
  dfdName :: "string option"
  threats :: "threat list"
  totalThreats :: nat
  tm_riskSummary :: riskSummary
  createdAt :: string
  owasp_mapped :: bool

record options =
  customRules :: "(string \<rightharpoonup> string list) option"

text \<open>JavaScript truthiness of a string-or-missing and of a boolean-or-missing property.\<close>

fun truthy :: "string option \<Rightarrow> bool" where
  "truthy None = False"
| "truthy (Some s) = (s \<noteq> [])"

fun flag :: "bool option \<Rightarrow> bool" where
  "flag None = False"
| "flag (Some b) = b"

text \<open>
  \<open>toLowerCase\<close> on the ASCII letters. The results are only compared with the words
  \<open>http\<close>, \<open>ftp\<close>, \<open>telnet\<close> and \<open>smtp\<close>, none of which is the lower case of a
  string with a letter outside ASCII.
\<close>

definition lowerChar :: "char \<Rightarrow> char" where
  "lowerChar c =
     (let n = (of_char c :: nat) in if 65 \<le> n \<and> n \<le> 90 then char_of (n + 32) else c)"

definition toLowerCase :: "string \<Rightarrow> string" where
  "toLowerCase s = map lowerChar s"

section \<open>The pattern library (threatLibrary.js)\<close>

text \<open>The en dash of the OWASP category names, in UTF-8.\<close>

definition ndash :: string where
  "ndash = [CHR 0xE2, CHR 0x80, CHR 0x93]"

definition A01 :: string where
  "A01 = ''A01:2021 '' @ ndash @ '' Broken Access Control''"

definition A02 :: string where
  "A02 = ''A02:2021 '' @ ndash @ '' Cryptographic Failures''"

definition A03 :: string where
  "A03 = ''A03:2021 '' @ ndash @ '' Injection''"

definition A04 :: string where
  "A04 = ''A04:2021 '' @ ndash @ '' Insecure Design''"

definition A05 :: string where
  "A05 = ''A05:2021 '' @ ndash @ '' Broken Access Control''"

definition A06 :: string where
  "A06 = ''A06:2021 '' @ ndash @ '' Vulnerable and Outdated Components''"

definition A07 :: string where
  "A07 = ''A07:2021 '' @ ndash @ '' Identification and Authentication Failures''"

definition elementPattern ::
  "string \<Rightarrow> string \<Rightarrow> string \<Rightarrow> string \<Rightarrow> string list \<Rightarrow> severity \<Rightarrow> string \<Rightarrow>
   string list \<Rightarrow> string list \<Rightarrow> string list option \<Rightarrow> string \<Rightarrow> pattern" where
  "elementPattern i t d c s sev imp tg ms rf ow =
     \<lparr>p_id = i, p_title = t, p_description = d, p_category = c, p_stride = Some s,
      p_severity = Some sev, p_impact = Some imp, p_targets = Some tg,
      p_appliesToDataflow = None, p_protocols = None, p_mitigations = Some ms,
      p_references = rf, p_owaspCategory = Some ow\<rparr>"

definition dataflowPattern ::
  "string \<Rightarrow> string \<Rightarrow> string \<Rightarrow> string \<Rightarrow> string list \<Rightarrow> severity \<Rightarrow> string \<Rightarrow>
   string list option \<Rightarrow> string list \<Rightarrow> string \<Rightarrow> pattern" where
  "dataflowPattern i t d c s sev imp pr ms ow =
     \<lparr>p_id = i, p_title = t, p_description = d, p_category = c, p_stride = Some s,
      p_severity = Some sev, p_impact = Some imp, p_targets = None,
      p_appliesToDataflow = Some True, p_protocols = pr, p_mitigations = Some ms,
      p_references = None, p_owaspCategory = Some ow\<rparr>"

definition ACT01 :: pattern where
  "ACT01 = elementPattern ''ACT01'' ''Malicious External Actor''
     ''External entities may be compromised or act with malicious intent''
     ''Actor Threat'' [''Spoofing'', ''Repudiation''] High ''Critical''
     [''external_entity'', ''user'', ''actor'']
     [''Implement multi-factor authentication'',
      ''Use digital signatures and certificates'',
      ''Implement continuous monitoring and anomaly detection'',
      ''Maintain detailed audit logs'',
      ''Implement rate limiting and CAPTCHA'']
     (Some [A07]) A07"

definition ACT02 :: pattern where
  "ACT02 = elementPattern ''ACT02'' ''Account Compromise''
     ''Actor credentials may be stolen or compromised''
     ''Authentication'' [''Spoofing''] High ''High''
     [''external_entity'', ''actor'']
     [''Enforce strong password policies'',
      ''Implement MFA/2FA'',
      ''Monitor for suspicious login patterns'',
      ''Session timeout policies'',
      ''Password reset procedures'']
     None A07"

definition PROC01 :: pattern where
  "PROC01 = elementPattern ''PROC01'' ''Input Validation Bypass''
     ''Process may not properly validate input, leading to injection attacks''
     ''Input Validation'' [''Tampering''] Critical ''Critical''
     [''process'']
     [''Implement strict input validation'',
      ''Use parameterized queries'',
      ''Whitelist acceptable input patterns'',
      ''Use security frameworks (ESAPI, Spring Security)'',
      ''Regular security testing (SAST)'']
     None A03"

definition PROC02 :: pattern where
  "PROC02 = elementPattern ''PROC02'' ''Privilege Escalation''
     ''Process running with excessive privileges may be exploited''
     ''Authorization'' [''Elevation of Privilege''] High ''Critical''
     [''process'']
     [''Apply principle of least privilege'',
      ''Use role-based access control (RBAC)'',
      ''Regular privilege audits'',
      ''Separate user and admin interfaces'',
      ''Monitor privilege usage'']
     None A01"

definition PROC03 :: pattern where
  "PROC03 = elementPattern ''PROC03'' ''Broken Authentication''
     ''Process authentication mechanisms may be bypassed or compromised''
     ''Authentication'' [''Spoofing''] Critical ''Critical''
     [''process'']
     [''Implement secure authentication protocols (OAuth 2.0, OIDC)'',
      ''Use hardware security modules for key storage'',
      ''Implement account lockout mechanisms'',
      ''Use secure session management'',
      ''Regular authentication testing'']
     None A07"

definition PROC04 :: pattern where
  "PROC04 = elementPattern ''PROC04'' ''Business Logic Bypass''
     ''Application business logic may be bypassed or exploited''
     ''Business Logic'' [''Tampering''] High ''High''
     [''process'']
     [''Comprehensive business logic testing'',
      ''State machine validation'',
      ''Rate limiting on critical operations'',
      ''Transaction integrity checks'',
      ''Fraud detection systems'']
     None A04"

definition DS01 :: pattern where
  "DS01 = elementPattern ''DS01'' ''Unauthorized Data Access''
     ''Sensitive data in datastore may be accessed without proper authorization''
     ''Information Disclosure'' [''Information Disclosure''] Critical ''Critical''
     [''datastore'', ''database'']
     [''Implement database encryption (TDE, field-level encryption)'',
      ''Use access control lists and row-level security'',
      ''Implement database auditing and monitoring'',
      ''Use data masking for sensitive fields'',
      ''Regular backup and recovery testing'',
      ''Implement principle of least privilege for DB access'']
     None A01"

definition DS02 :: pattern where
  "DS02 = elementPattern ''DS02'' ''Data Tampering''
     ''Data in datastore may be modified without detection''
     ''Data Integrity'' [''Tampering''] High ''High''
     [''datastore'', ''database'']
     [''Implement database integrity checks (hash verification)'',
      ''Use digital signatures for critical data'',
      ''Enable transaction logging'',
      ''Implement audit trails'',
      ''Regular integrity audits'',
      ''Backup and version control'']
     None A06"

definition DS03 :: pattern where
  "DS03 = elementPattern ''DS03'' ''Data Loss''
     ''Data in datastore may be lost due to failure or attack''
     ''Availability'' [''Denial of Service''] High ''Critical''
     [''datastore'', ''database'']
     [''Implement automated backups'',
      ''Use database replication and clustering'',
      ''Disaster recovery planning'',
      ''Regular backup testing and restore drills'',
      ''Implement redundancy'',
      ''Geographic data distribution'']
     None A06"

definition DS04 :: pattern where
  "DS04 = elementPattern ''DS04'' ''SQL Injection via Database''
     ''Database may be vulnerable to SQL injection attacks''
     ''Injection'' [''Tampering''] Critical ''Critical''
     [''datastore'', ''database'']
     [''Use parameterized queries and prepared statements'',
      ''Input validation and sanitization'',
      ''Principle of least privilege for database accounts'',
      ''Web Application Firewall (WAF)'',
      ''Regular security testing (DAST)'',
      ''Database activity monitoring'']
     None A03"

definition DF01 :: pattern where
  "DF01 = dataflowPattern ''DF01'' ''Man-in-the-Middle Attack''
     ''Unencrypted dataflow is vulnerable to interception and modification''
     ''Network Attack'' [''Tampering'', ''Information Disclosure'', ''Spoofing'']
     Critical ''Critical''
     (Some [''HTTP'', ''FTP'', ''SMTP'', ''TELNET''])
     [''Use TLS 1.2+ for all communications'',
      ''Implement certificate pinning'',
      ''HSTS headers'',
      ''Perfect forward secrecy'',
      ''Regular certificate updates'',
      ''Monitor for suspicious certificates'']
     A02"

definition DF02 :: pattern where
  "DF02 = dataflowPattern ''DF02'' ''Eavesdropping''
     ''Sensitive data in dataflow may be eavesdropped''
     ''Information Disclosure'' [''Information Disclosure'']
     High ''High''
     None
     [''End-to-end encryption'',
      ''Use VPN for sensitive communications'',
      ''Message-level encryption'',
      ''Perfect forward secrecy'',
      ''Regular encryption audits'']
     A02"

definition DF03 :: pattern where
  "DF03 = dataflowPattern ''DF03'' ''Replay Attack''
     ''Legitimate dataflow messages may be captured and replayed''
     ''Network Attack'' [''Spoofing'', ''Tampering'']
     High ''High''
     None
     [''Implement message timestamps'',
      ''Use nonce/challenge-response'',
      ''Session tokens with expiration'',
      ''Message sequence numbers'',
      ''MAC codes on messages'']
     A02"

definition DF04 :: pattern where
  "DF04 = dataflowPattern ''DF04'' ''Denial of Service''
     ''Dataflow may be targeted by DoS attacks''
     ''Availability'' [''Denial of Service'']
     Medium ''High''
     None
     [''Rate limiting'',
      ''Load balancing'',
      ''DDoS protection services'',
      ''Input validation'',
      ''Connection timeouts'',
      ''Resource quotas'']
     A05"

definition EXT01 :: pattern where
  "EXT01 = elementPattern ''EXT01'' ''Compromised Third-Party''
     ''External entity may be compromised or unreliable''
     ''Third-Party Risk'' [''Spoofing'', ''Tampering''] High ''High''
     [''external_entity'']
     [''Vendor security assessments'',
      ''Contract security requirements'',
      ''API authentication and rate limiting'',
      ''Monitor third-party communications'',
      ''Incident response plans'',
      ''Business continuity planning'']
     None A06"

record library =
  version :: string
  source :: string
  patterns :: "(string \<times> pattern list) list"

text \<open>
  The \<open>patterns\<close> object as an association list in the order of its keys, which is the
  order a \<open>for ... in\<close> loop visits them.
\<close>

definition threatLibrary :: library where
  "threatLibrary =
     \<lparr>version = ''1.0.0'',
      source = ''OWASP Threat Model Library'',
      patterns =
        [(''actor'', [ACT01, ACT02]),
         (''process'', [PROC01, PROC02, PROC03, PROC04]),
         (''datastore'', [DS01, DS02, DS03, DS04]),
         (''dataflow'', [DF01, DF02, DF03, DF04]),
         (''external_entity'', [EXT01])]\<rparr>"

definition typeMap :: "(string \<times> string) list" where
  "typeMap =
     [(''process'', ''process''),
      (''datastore'', ''datastore''),
      (''database'', ''datastore''),
      (''actor'', ''actor''),
      (''external_entity'', ''external_entity''),
      (''user'', ''actor''),
      (''dataflow'', ''dataflow'')]"

text \<open>
  \<open>typeMap[elementType] || elementType\<close>, then \<open>patterns[mappedType] || []\<close>. A
  missing type and a type naming a property that every object inherits
  (\<open>constructor\<close>, \<open>toString\<close>, ...) both end in the empty list, as a type that is
  no key of either table does.
\<close>

definition getThreatPatterns :: "string option \<Rightarrow> pattern list" where
  "getThreatPatterns ty0 =
     (case ty0 of
        None \<Rightarrow> []
      | Some ty \<Rightarrow>
          (let mappedType = (case map_of typeMap ty of Some m \<Rightarrow> m | None \<Rightarrow> ty)
           in case map_of (patterns threatLibrary) mappedType of
                Some ps \<Rightarrow> ps
              | None \<Rightarrow> []))"

section \<open>The threat generator (threatGenerator.js)\<close>

definition matchesElement :: "element \<Rightarrow> pattern \<Rightarrow> bool" where
  "matchesElement el pat =
     (case p_targets pat of
        None \<Rightarrow> True
      | Some ts \<Rightarrow> (case e_type el of None \<Rightarrow> False | Some ty \<Rightarrow> ty \<in> set ts))"

definition matchesDataflow :: "dataflow \<Rightarrow> pattern \<Rightarrow> bool" where
  "matchesDataflow df pat =
     (if \<not> flag (p_appliesToDataflow pat) then False
      else
        (case p_protocols pat of
           None \<Rightarrow> True
         | Some ps \<Rightarrow> (case protocol df of None \<Rightarrow> False | Some pr \<Rightarrow> pr \<in> set ps)))"

text \<open>\<open>pattern.severity || 'Medium'\<close>\<close>

definition baseSeverity :: "pattern \<Rightarrow> severity" where
  "baseSeverity pat = (case p_severity pat of None \<Rightarrow> Medium | Some s \<Rightarrow> s)"

definition calculateSeverity :: "pattern \<Rightarrow> element \<Rightarrow> severity" where
  "calculateSeverity pat el =
     (if trustLevel el = Some ''untrusted'' then Critical
      else if trustLevel el = Some ''partially-trusted'' then
        (if baseSeverity pat = Low then Medium else baseSeverity pat)
      else baseSeverity pat)"

definition calculateSeverityForDataflow :: "pattern \<Rightarrow> dataflow \<Rightarrow> severity" where
  "calculateSeverityForDataflow pat df =
     (if flag (hasSensitiveData df) then Critical
      else if flag (isCrossNetwork df) then
        (if baseSeverity pat = Low then Medium else High)
      else baseSeverity pat)"

text \<open>\<open>x || d\<close> for a string-valued and for an array-valued pattern property.\<close>

definition orString :: "string option \<Rightarrow> string \<Rightarrow> string" where
  "orString x d = (case x of None \<Rightarrow> d | Some s \<Rightarrow> if s = [] then d else s)"

definition orList :: "string list option \<Rightarrow> string list" where
  "orList x = (case x of None \<Rightarrow> [] | Some xs \<Rightarrow> xs)"

definition elementPatternThreat :: "element \<Rightarrow> pattern \<Rightarrow> threat" where
  "elementPatternThreat el pat =
     \<lparr>t_id = None,
      title = p_title pat,
      description = p_description pat,
      category = p_category pat,
      stride = p_stride pat,
      severity = calculateSeverity pat el,
      likelihood = ''Medium'',
      impact = orString (p_impact pat) ''High'',
      mitigations = orList (p_mitigations pat),
      references = Some (orList (p_references pat)),
      owaspCategory = orString (p_owaspCategory pat) A01,
      elementId = None, elementName = None, elementType = None,
      dataflowId = None, dataflowName = None, dataflowType = None\<rparr>"

definition maliciousExternalActor :: threat where
  "maliciousExternalActor =
     \<lparr>t_id = None,
      title = ''Malicious External Actor'',
      description = ''External entity may be compromised or act maliciously'',
      category = ''Actor Threat'',
      stride = Some [''Spoofing'', ''Repudiation''],
      severity = High,
      likelihood = ''Medium'',
      impact = ''High'',
      mitigations =
        [''Implement authentication mechanisms'',
         ''Use digital signatures for verification'',
         ''Monitor for anomalous behavior'',
         ''Implement audit logging''],
      references = None,
      owaspCategory = A07,
      elementId = None, elementName = None, elementType = None,
      dataflowId = None, dataflowName = None, dataflowType = None\<rparr>"

definition unauthorizedDataAccess :: threat where
  "unauthorizedDataAccess =
     \<lparr>t_id = None,
      title = ''Unauthorized Data Access'',
      description = ''Sensitive data in datastore may be accessed without authorization'',
      category = ''Information Disclosure'',
      stride = Some [''Information Disclosure'', ''Tampering''],
      severity = Critical,
      likelihood = ''High'',
      impact = ''Critical'',
      mitigations =
        [''Implement encryption at rest'',
         ''Use access control lists'',
         ''Implement database auditing'',
         ''Use data masking for sensitive fields'',
         ''Regular backup and recovery testing''],
      references = None,
      owaspCategory = A01,
      elementId = None, elementName = None, elementType = None,
      dataflowId = None, dataflowName = None, dataflowType = None\<rparr>"

definition privilegeEscalation :: threat where
  "privilegeEscalation =
     \<lparr>t_id = None,
      title = ''Privilege Escalation'',
      description = ''Process may be exploited to escalate privileges'',
      category = ''Authorization Bypass'',
      stride = Some [''Elevation of Privilege''],
      severity = High,
      likelihood = ''Medium'',
      impact = ''Critical'',
      mitigations =
        [''Run with least privilege principle'',
         ''Input validation and sanitization'',
         ''Use security frameworks'',
         ''Implement RBAC'',
         ''Regular security testing''],
      references = None,
      owaspCategory = A04,
      elementId = None, elementName = None, elementType = None,
      dataflowId = None, dataflowName = None, dataflowType = None\<rparr>"

text \<open>
  \<open>analyzeElement\<close>: the findings of the matching patterns, in the order of the
  library, followed by the role-based findings.
\<close>

definition elementPatternThreats :: "element \<Rightarrow> threat list" where
  "elementPatternThreats el =
     map (elementPatternThreat el)
       (filter (matchesElement el) (getThreatPatterns (e_type el)))"

definition elementRoleThreats :: "element \<Rightarrow> threat list" where
  "elementRoleThreats el =
     (if flag (isExternalEntity el) then [maliciousExternalActor] else []) @
     (if flag (isDatastore el) then [unauthorizedDataAccess] else []) @
     (if flag (isProcess el) then [privilegeEscalation] else [])"

definition analyzeElement :: "element \<Rightarrow> threat list" where
  "analyzeElement el = elementPatternThreats el @ elementRoleThreats el"

definition dataflowPatternThreat :: "dataflow \<Rightarrow> pattern \<Rightarrow> threat" where
  "dataflowPatternThreat df pat =
     \<lparr>t_id = None,
      title = p_title pat,
      description = p_description pat,
      category = p_category pat,
      stride = p_stride pat,
      severity = calculateSeverityForDataflow pat df,
      likelihood = ''High'',
      impact = orString (p_impact pat) ''High'',
      mitigations = orList (p_mitigations pat),
      references = Some (orList (p_references pat)),
      owaspCategory = orString (p_owaspCategory pat) A02,
      elementId = None, elementName = None, elementType = None,
      dataflowId = None, dataflowName = None, dataflowType = None\<rparr>"

definition manInTheMiddle :: threat where
  "manInTheMiddle =
     \<lparr>t_id = None,
      title = ''Man-in-the-Middle Attack'',
      description = ''Unencrypted HTTP dataflow is vulnerable to MITM attacks'',
      category = ''Network Attack'',
      stride = Some [''Tampering'', ''Information Disclosure''],
      severity = Critical,
      likelihood = ''High'',
      impact = ''Critical'',
      mitigations =
        [''Use HTTPS/TLS encryption'',
         ''Implement certificate pinning'',
         ''Use HSTS headers'',
         ''Implement perfect forward secrecy'',
         ''Regular security updates''],
      references = None,
      owaspCategory = A02,
      elementId = None, elementName = None, elementType = None,
      dataflowId = None, dataflowName = None, dataflowType = None\<rparr>"

definition dataExposure :: threat where
  "dataExposure =
     \<lparr>t_id = None,
      title = ''Data Exposure During Transit'',
      description = ''Sensitive data may be exposed if not properly protected in transit'',
      category = ''Data Protection'',
      stride = Some [''Information Disclosure''],
      severity = Critical,
      likelihood = ''High'',
      impact = ''Critical'',
      mitigations =
        [''Encrypt data in transit (TLS 1.2+)'',
         ''Use strong encryption algorithms'',
         ''Implement key management'',
         ''Data classification policy'',
         ''Regular encryption audits''],
      references = None,
      owaspCategory = A02,
      elementId = None, elementName = None, elementType = None,
      dataflowId = None, dataflowName = None, dataflowType = None\<rparr>"

text \<open>\<open>dataflow.protocol && dataflow.protocol.toLowerCase() === 'http'\<close>\<close>

definition isHttp :: "dataflow \<Rightarrow> bool" where
  "isHttp df =
     (case protocol df of None \<Rightarrow> False | Some pr \<Rightarrow> pr \<noteq> [] \<and> toLowerCase pr = ''http'')"

definition dataflowPatternThreats :: "dataflow \<Rightarrow> threat list" where
  "dataflowPatternThreats df =
     map (dataflowPatternThreat df)
       (filter (matchesDataflow df) (getThreatPatterns (Some ''dataflow'')))"

definition dataflowCharacteristicThreats :: "dataflow \<Rightarrow> threat list" where
  "dataflowCharacteristicThreats df =
     (if isHttp df then [manInTheMiddle] else []) @
     (if flag (hasSensitiveData df) then [dataExposure] else [])"

definition analyzeDataflow :: "dataflow \<Rightarrow> threat list" where
  "analyzeDataflow df = dataflowPatternThreats df @ dataflowCharacteristicThreats df"

text \<open>
  \<open>generateThreatModel\<close>. The calls of \<open>uuidv4()\<close> are numbered in the order they
  are made and \<open>uuidv4 k\<close> is the value the \<open>k\<close>-th call returns; \<open>now\<close> is the
  value of \<open>new Date().toISOString()\<close>. The state of the two loops is the
  \<open>threats\<close> array, the \<open>riskSummary\<close> object and the number of identifiers drawn.
  The maps \<open>elementThreats\<close> and \<open>dataflowThreats\<close> are written and never read.
  The call raises when \<open>elements\<close> or \<open>dataflows\<close> has no \<open>forEach\<close>, and when
  a loop reaches a bad entry: \<open>analyzeElement\<close> reads \<open>element.type\<close> and
  \<open>analyzeDataflow\<close> reads \<open>dataflow.protocol\<close> and calls its \<open>toLowerCase\<close>.
\<close>

record genState =
  gs_threats :: "threat list"
  gs_riskSummary :: riskSummary
  gs_uuids :: nat

text \<open>\<open>riskSummary[threat.severity.toLowerCase()]++\<close>\<close>

fun increment :: "severity \<Rightarrow> riskSummary \<Rightarrow> riskSummary" where
  "increment Critical r = r\<lparr>critical := critical r + 1\<rparr>"
| "increment High r = r\<lparr>high := high r + 1\<rparr>"
| "increment Medium r = r\<lparr>medium := medium r + 1\<rparr>"
| "increment Low r = r\<lparr>low := low r + 1\<rparr>"

definition stampElement :: "element \<Rightarrow> threat \<Rightarrow> threat" where
  "stampElement el th =
     th\<lparr>elementId := e_id el, elementName := e_name el, elementType := e_type el\<rparr>"

definition stampDataflow :: "dataflow \<Rightarrow> threat \<Rightarrow> threat" where
  "stampDataflow df th =
     th\<lparr>dataflowId := df_id df, dataflowName := df_name df, dataflowType := df_type df\<rparr>"

definition pushThreat :: "(nat \<Rightarrow> string) \<Rightarrow> genState \<Rightarrow> threat \<Rightarrow> genState" where
  "pushThreat uuidv4 st th =
     \<lparr>gs_threats = gs_threats st @ [th\<lparr>t_id := Some (uuidv4 (gs_uuids st))\<rparr>],
      gs_riskSummary = increment (severity th) (gs_riskSummary st),
      gs_uuids = Suc (gs_uuids st)\<rparr>"

definition elementStep :: "(nat \<Rightarrow> string) \<Rightarrow> genState \<Rightarrow> element \<Rightarrow> genState" where
  "elementStep uuidv4 st el =
     foldl (\<lambda>s th. pushThreat uuidv4 s (stampElement el th)) st (analyzeElement el)"

definition dataflowStep :: "(nat \<Rightarrow> string) \<Rightarrow> genState \<Rightarrow> dataflow \<Rightarrow> genState" where
  "dataflowStep uuidv4 st df =
     foldl (\<lambda>s th. pushThreat uuidv4 s (stampDataflow df th)) st (analyzeDataflow df)"

definition initialState :: genState where
  "initialState =
     \<lparr>gs_threats = [],
      gs_riskSummary = \<lparr>critical = 0, high = 0, medium = 0, low = 0\<rparr>,
      gs_uuids = 0\<rparr>"

definition applyCustomRule :: "(string \<rightharpoonup> string list) \<Rightarrow> threat \<Rightarrow> threat" where
  "applyCustomRule rules th =
     (case t_id th of
        None \<Rightarrow> th
      | Some i \<Rightarrow>
          (case rules i of
             None \<Rightarrow> th
           | Some customMitigations \<Rightarrow>
               th\<lparr>mitigations := mitigations th @ customMitigations\<rparr>))"

definition applyCustomRules :: "options \<Rightarrow> threat list \<Rightarrow> threat list" where
  "applyCustomRules opts ts =
     (case customRules opts of
        None \<Rightarrow> ts
      | Some rules \<Rightarrow> map (applyCustomRule rules) ts)"

fun severityOrder :: "severity \<Rightarrow> nat" where
  "severityOrder Critical = 0"
| "severityOrder High = 1"
| "severityOrder Medium = 2"
| "severityOrder Low = 3"

text \<open>
  \<open>threats.sort\<close> with the comparator \<open>severityOrder[a.severity] - severityOrder[b.severity]\<close>:
  a stable sort (ECMAScript 2019) on the severity rank, here the insertion sort
  \<open>sort_key\<close>.
\<close>

definition sortBySeverity :: "threat list \<Rightarrow> threat list" where
  "sortBySeverity ts = sort_key (\<lambda>th. severityOrder (severity th)) ts"

definition generateThreatModel ::
  "(nat \<Rightarrow> string) \<Rightarrow> string \<Rightarrow> dfd \<Rightarrow> options \<Rightarrow> error + threatModel" where
  "generateThreatModel uuidv4 now d opts =
     (case elements d of
        Arr es \<Rightarrow>
          (case dataflows d of
             Arr dfs \<Rightarrow>
               (let st = foldl (dataflowStep uuidv4) (foldl (elementStep uuidv4) initialState es) dfs;
                    ts = sortBySeverity (applyCustomRules opts (gs_threats st))
                in Inr \<lparr>tm_id = uuidv4 (gs_uuids st),
                        dfdId = dfd_id d,
                        dfdName = dfd_name d,
                        threats = ts,
                        totalThreats = length ts,
                        tm_riskSummary = gs_riskSummary st,
                        createdAt = now,
                        owasp_mapped = True\<rparr>)
           | BadEntries n \<Rightarrow> Inl TypeError
           | Nullish \<Rightarrow> Inl TypeError
           | NonArray \<Rightarrow> Inl TypeError)
      | BadEntries n \<Rightarrow> Inl TypeError
      | Nullish \<Rightarrow> Inl TypeError
      | NonArray \<Rightarrow> Inl TypeError)"

text \<open>
  \<open>breakdownBySTRIDE\<close>. The \<open>breakdown\<close> object is an association list in the order
  of its keys. \<open>breakdown[category]\<close> is the bucket when \<open>category\<close> is one of its
  keys; when \<open>category\<close> names a property that every object inherits, it is a truthy
  value without \<open>push\<close> and the call raises; otherwise it is \<open>undefined\<close> and the
  tag is skipped.
\<close>

definition strideCategories :: "string list" where
  "strideCategories =
     [''Spoofing'', ''Tampering'', ''Repudiation'', ''Information Disclosure'',
      ''Denial of Service'', ''Elevation of Privilege'']"

definition inheritedProperties :: "string list" where
  "inheritedProperties =
     [''constructor'', ''__proto__'', ''hasOwnProperty'', ''isPrototypeOf'',
      ''propertyIsEnumerable'', ''toLocaleString'', ''toString'', ''valueOf'',
      ''__defineGetter__'', ''__defineSetter__'', ''__lookupGetter__'',
      ''__lookupSetter__'']"

type_synonym breakdown = "(string \<times> threat list) list"

definition pushInto :: "string \<Rightarrow> threat \<Rightarrow> string \<times> threat list \<Rightarrow> string \<times> threat list" where
  "pushInto c th entry = (if fst entry = c then (fst entry, snd entry @ [th]) else entry)"

definition pushCategory :: "threat \<Rightarrow> breakdown \<Rightarrow> string \<Rightarrow> error + breakdown" where
  "pushCategory th b c =
     (if c \<in> set (map fst b) then Inr (map (pushInto c th) b)
      else if c \<in> set inheritedProperties then Inl TypeError
      else Inr b)"

fun pushCategories :: "threat \<Rightarrow> breakdown \<Rightarrow> string list \<Rightarrow> error + breakdown" where
  "pushCategories th b [] = Inr b"
| "pushCategories th b (c # cs) =
     (case pushCategory th b c of
        Inl e \<Rightarrow> Inl e
      | Inr b' \<Rightarrow> pushCategories th b' cs)"

fun breakdownLoop :: "breakdown \<Rightarrow> threat list \<Rightarrow> error + breakdown" where
  "breakdownLoop b [] = Inr b"
| "breakdownLoop b (th # ths) =
     (case stride th of
        None \<Rightarrow> breakdownLoop b ths
      | Some cs \<Rightarrow>
          (case pushCategories th b cs of
             Inl e \<Rightarrow> Inl e
           | Inr b' \<Rightarrow> breakdownLoop b' ths))"

definition breakdownBySTRIDE :: "threat list \<Rightarrow> error + breakdown" where
  "breakdownBySTRIDE ths =
     (case breakdownLoop (map (\<lambda>c. (c, [])) strideCategories) ths of
        Inl e \<Rightarrow> Inl e
      | Inr b \<Rightarrow> Inr (filter (\<lambda>entry. length (snd entry) > 0) b))"

section \<open>Library metadata (threatLibrary.js)\<close>

record metadata =
  md_version :: string
  md_source :: string
  md_categories :: "string list"
  totalPatterns :: nat
  strideCoverage :: "string list"
  supportedElementTypes :: "string list"

text \<open>A JavaScript \<open>Set\<close> as the list of its members in insertion order.\<close>

definition setAdd :: "'a list \<Rightarrow> 'a \<Rightarrow> 'a list" where
  "setAdd s x = (if x \<in> set s then s else s @ [x])"

record mdState =
  ms_types :: "string list"
  ms_categories :: "string list"
  ms_total :: nat
  ms_stride :: "string list"

definition patternStep :: "mdState \<Rightarrow> pattern \<Rightarrow> mdState" where
  "patternStep st pat =
     st\<lparr>ms_total := ms_total st + 1,
        ms_categories := setAdd (ms_categories st) (p_category pat),
        ms_stride :=
          (case p_stride pat of
             None \<Rightarrow> ms_stride st
           | Some ss \<Rightarrow> foldl setAdd (ms_stride st) ss)\<rparr>"

definition categoryStep :: "mdState \<Rightarrow> string \<times> pattern list \<Rightarrow> mdState" where
  "categoryStep st entry =
     foldl patternStep (st\<lparr>ms_types := setAdd (ms_types st) (fst entry)\<rparr>) (snd entry)"

definition getLibraryMetadataOf :: "library \<Rightarrow> metadata" where
  "getLibraryMetadataOf lib =
     (let st = foldl categoryStep
                 \<lparr>ms_types = [], ms_categories = [], ms_total = 0, ms_stride = []\<rparr>
                 (patterns lib)
      in \<lparr>md_version = version lib,
          md_source = source lib,
          md_categories = ms_categories st,
          totalPatterns = ms_total st,
          strideCoverage = ms_stride st,
          supportedElementTypes = ms_types st\<rparr>)"

definition getLibraryMetadata :: metadata where
  "getLibraryMetadata = getLibraryMetadataOf threatLibrary"

section \<open>The validator (dfdValidator.js)\<close>

record validation =
  valid :: bool
  errors :: "string list"
  warnings :: "string list option"
  elementCount :: "nat option"
  dataflowCount :: "nat option"
  trustBoundaryCount :: "nat option"

text \<open>A number and a string-or-missing property inside a template literal.\<close>

fun showNat :: "nat \<Rightarrow> string" where
  "showNat n =
     (if n < 10 then [char_of (48 + n)]
      else showNat (n div 10) @ [char_of (48 + n mod 10)])"

declare showNat.simps [simp del]

definition str :: "string option \<Rightarrow> string" where
  "str x = (case x of None \<Rightarrow> ''undefined'' | Some s \<Rightarrow> s)"

text \<open>\<open>'...'\<close> around a name inside a message.\<close>

definition quoted :: "string option \<Rightarrow> string" where
  "quoted x = [CHR 0x27] @ str x @ [CHR 0x27]"

definition validTypes :: "string list" where
  "validTypes = [''actor'', ''process'', ''datastore'', ''external_entity'', ''user'', ''database'']"

text \<open>
  The state of the element loop: \<open>errors\<close>, \<open>warnings\<close> and the set \<open>elementIds\<close>.
  The loop body returns the element as it has mutated it.
\<close>

record valState =
  vs_errors :: "string list"
  vs_warnings :: "string list"
  vs_ids :: "string option set"

definition typeErrors :: "nat \<Rightarrow> element \<Rightarrow> string list" where
  "typeErrors index el =
     (case e_type el of
        None \<Rightarrow> [''Element '' @ showNat index @ '' missing required field: type'']
      | Some ty \<Rightarrow>
          if ty = [] then [''Element '' @ showNat index @ '' missing required field: type'']
          else if ty \<notin> set validTypes then
            [''Element '' @ showNat index @ '' has invalid type: '' @ ty]
          else [])"

definition isDatastoreType :: "element \<Rightarrow> bool" where
  "isDatastoreType el = (e_type el = Some ''datastore'' \<or> e_type el = Some ''database'')"

definition isExternalType :: "element \<Rightarrow> bool" where
  "isExternalType el =
     (e_type el = Some ''external_entity'' \<or> e_type el = Some ''actor'' \<or>
      e_type el = Some ''user'')"

definition markRoles :: "element \<Rightarrow> element" where
  "markRoles el =
     (let el1 = (if isDatastoreType el then el\<lparr>isDatastore := Some True\<rparr> else el);
          el2 = (if isExternalType el then el1\<lparr>isExternalEntity := Some True\<rparr> else el1)
      in if e_type el = Some ''process'' then el2\<lparr>isProcess := Some True\<rparr> else el2)"

definition validateElement :: "nat \<Rightarrow> element \<Rightarrow> valState \<Rightarrow> element \<times> valState" where
  "validateElement index el st =
     (markRoles el,
      \<lparr>vs_errors = vs_errors st @
         (if \<not> truthy (e_id el)
          then [''Element '' @ showNat index @ '' missing required field: id''] else []) @
         (if \<not> truthy (e_name el)
          then [''Element '' @ showNat index @ '' missing required field: name''] else []) @
         typeErrors index el @
         (if truthy (e_id el) \<and> e_id el \<in> vs_ids st
          then [''Duplicate element ID: '' @ str (e_id el)] else []),
       vs_warnings = vs_warnings st @
         (if isDatastoreType el \<and> \<not> truthy (e_description el)
          then [''Datastore '' @ quoted (e_name el) @ '' should have description'']
          else []),
       vs_ids = (if truthy (e_id el) then insert (e_id el) (vs_ids st) else vs_ids st)\<rparr>)"

fun validateElements ::
  "nat \<Rightarrow> element list \<Rightarrow> valState \<Rightarrow> element list \<times> valState" where
  "validateElements index [] st = ([], st)"
| "validateElements index (el # els) st =
     (case validateElement index el st of
        (el', st') \<Rightarrow>
          (case validateElements (Suc index) els st' of
             (els', st'') \<Rightarrow> (el' # els', st'')))"

definition insecureProtocol :: "dataflow \<Rightarrow> bool" where
  "insecureProtocol df =
     (case protocol df of
        None \<Rightarrow> False
      | Some pr \<Rightarrow> pr \<noteq> [] \<and> toLowerCase pr \<in> set [''http'', ''ftp'', ''telnet'', ''smtp''])"

text \<open>
  The dataflow loop body; \<open>elementIds\<close> is the set of the \<open>id\<close> properties of the
  elements and \<open>vs_ids\<close> is \<open>dataflowIds\<close>.
\<close>

definition validateDataflow ::
  "string option set \<Rightarrow> nat \<Rightarrow> dataflow \<Rightarrow> valState \<Rightarrow> valState" where
  "validateDataflow elementIds index df st =
     \<lparr>vs_errors = vs_errors st @
        (if \<not> truthy (df_id df)
         then [''Dataflow '' @ showNat index @ '' missing required field: id''] else []) @
        (if \<not> truthy (df_from df)
         then [''Dataflow '' @ showNat index @ '' missing required field: from''] else []) @
        (if \<not> truthy (df_to df)
         then [''Dataflow '' @ showNat index @ '' missing required field: to''] else []) @
        (if \<not> truthy (df_name df)
         then [''Dataflow '' @ showNat index @ '' missing required field: name''] else []) @
        (if truthy (df_id df) \<and> df_id df \<in> vs_ids st
         then [''Duplicate dataflow ID: '' @ str (df_id df)] else []) @
        (if truthy (df_from df) \<and> df_from df \<notin> elementIds
         then [''Dataflow '' @ quoted (df_name df) @ '': source element '' @
               quoted (df_from df) @ '' not found'']
         else []) @
        (if truthy (df_to df) \<and> df_to df \<notin> elementIds
         then [''Dataflow '' @ quoted (df_name df) @ '': destination element '' @
               quoted (df_to df) @ '' not found'']
         else []),
      vs_warnings = vs_warnings st @
        (if flag (hasSensitiveData df) \<and> \<not> flag (isEncrypted df)
         then [''Dataflow '' @ quoted (df_name df) @
               '' carries sensitive data but is not encrypted'']
         else []) @
        (if insecureProtocol df
         then [''Dataflow '' @ quoted (df_name df) @ '' uses unencrypted protocol: '' @
               str (protocol df)]
         else []) @
        (if \<not> truthy (authentication df) \<and> flag (isCrossNetwork df)
         then [''Dataflow '' @ quoted (df_name df) @
               '' crosses network boundary but lacks authentication'']
         else []),
      vs_ids = (if truthy (df_id df) then insert (df_id df) (vs_ids st) else vs_ids st)\<rparr>"

fun validateDataflows ::
  "string option set \<Rightarrow> nat \<Rightarrow> dataflow list \<Rightarrow> valState \<Rightarrow> valState" where
  "validateDataflows elementIds index [] st = st"
| "validateDataflows elementIds index (df # dfs) st =
     validateDataflows elementIds (Suc index) dfs (validateDataflow elementIds index df st)"

text \<open>\<open>new Set(dfd.elements?.map(e => e.id) || [])\<close>\<close>

fun elementIdSet :: "element jsarray \<Rightarrow> error + string option set" where
  "elementIdSet Nullish = Inr {}"
| "elementIdSet NonArray = Inl TypeError"
| "elementIdSet (BadEntries n) = Inl TypeError"
| "elementIdSet (Arr es) = Inr (set (map e_id es))"

definition connectedElements :: "dataflow list \<Rightarrow> string option set" where
  "connectedElements dfs = set (concat (map (\<lambda>df. [df_from df, df_to df]) dfs))"

definition orphanWarnings :: "element list \<Rightarrow> dataflow list \<Rightarrow> string list" where
  "orphanWarnings es dfs =
     concat (map (\<lambda>el. if e_id el \<notin> connectedElements dfs
                        then [''Element '' @ quoted (e_name el) @
                              '' is not connected to any dataflow'']
                        else []) es)"

definition topLevelErrors :: "dfd \<Rightarrow> string list" where
  "topLevelErrors d =
     (if \<not> truthy (dfd_id d) then [''DFD ID is required''] else []) @
     (if \<not> truthy (dfd_name d) then [''DFD name is required''] else []) @
     (if \<not> isArray (elements d) \<or> lengthOrZero (elements d) = 0
      then [''DFD must have at least one element''] else []) @
     (if \<not> isArray (dataflows d) then [''DFD must have dataflows array''] else [])"

text \<open>
  The element phase: the elements as mutated, and the state after the loop. The loop
  raises at a \<open>null\<close> entry, where it reads \<open>element.id\<close>.
\<close>

definition elementPhase :: "dfd \<Rightarrow> error + element jsarray \<times> valState" where
  "elementPhase d =
     (let st0 = \<lparr>vs_errors = topLevelErrors d, vs_warnings = [], vs_ids = {}\<rparr>
      in case elements d of
           Arr es \<Rightarrow> (case validateElements 0 es st0 of (es', st) \<Rightarrow> Inr (Arr es', st))
         | BadEntries n \<Rightarrow> Inl TypeError
         | Nullish \<Rightarrow> Inr (Nullish, st0)
         | NonArray \<Rightarrow> Inr (NonArray, st0))"

text \<open>
  The dataflow phase. It raises when the set of element ids cannot be built, at a
  \<open>null\<close> entry, where it reads \<open>dataflow.id\<close>, and at a dataflow whose
  \<open>protocol\<close> is truthy and not a string, where it calls
  \<open>dataflow.protocol?.toLowerCase()\<close>.
\<close>

definition dataflowPhase :: "element jsarray \<Rightarrow> dataflow jsarray \<Rightarrow> valState \<Rightarrow> error + valState" where
  "dataflowPhase els dfl st =
     (case dfl of
        Arr dfs \<Rightarrow>
          (case elementIdSet els of
             Inl e \<Rightarrow> Inl e
           | Inr elementIds \<Rightarrow> Inr (validateDataflows elementIds 0 dfs (st\<lparr>vs_ids := {}\<rparr>)))
      | BadEntries n \<Rightarrow> Inl TypeError
      | Nullish \<Rightarrow> Inr st
      | NonArray \<Rightarrow> Inr st)"

text \<open>
  The search for orphaned elements, reached only when the two loops have not raised,
  so with no bad entry in either array.
\<close>

definition orphanPhase :: "element jsarray \<Rightarrow> dataflow jsarray \<Rightarrow> string list" where
  "orphanPhase els dfl =
     (case els of
        Arr es \<Rightarrow>
          (case dfl of
             Arr dfs \<Rightarrow> orphanWarnings es dfs
           | BadEntries n \<Rightarrow> []
           | Nullish \<Rightarrow> []
           | NonArray \<Rightarrow> [])
      | BadEntries n \<Rightarrow> []
      | Nullish \<Rightarrow> []
      | NonArray \<Rightarrow> [])"

definition trustBoundaryWarnings :: "dfd \<Rightarrow> string list" where
  "trustBoundaryWarnings d =
     (if \<not> isArray (trustBoundaries d) \<or> lengthOrZero (trustBoundaries d) = 0
      then [''No trust boundaries defined. Consider adding trust boundaries to your DFD'']
      else [])"

text \<open>
  \<open>validate\<close> returns its result together with the DFD as the call leaves it: the
  elements carry the role flags the loop has set.
\<close>

definition validate :: "dfd option \<Rightarrow> error + validation \<times> dfd option" where
  "validate d0 =
     (case d0 of
        None \<Rightarrow>
          Inr (\<lparr>valid = False, errors = [''DFD object is required''], warnings = None,
                elementCount = None, dataflowCount = None, trustBoundaryCount = None\<rparr>,
               None)
      | Some d \<Rightarrow>
          (case elementPhase d of
             Inl e \<Rightarrow> Inl e
           | Inr (els, st1) \<Rightarrow>
               (case dataflowPhase els (dataflows d) st1 of
                  Inl e \<Rightarrow> Inl e
                | Inr st2 \<Rightarrow>
                    (let errs = vs_errors st2;
                         warns = vs_warnings st2 @ orphanPhase els (dataflows d) @
                                 trustBoundaryWarnings d
                     in Inr (\<lparr>valid = (length errs = 0),
                               errors = errs,
                               warnings = Some warns,
                               elementCount = Some (lengthOrZero els),
                               dataflowCount = Some (lengthOrZero (dataflows d)),
                               trustBoundaryCount = Some (lengthOrZero (trustBoundaries d))\<rparr>,
                             Some (d\<lparr>elements := els\<rparr>))))))"

section \<open>Notions used in the statements\<close>

text \<open>
  A finding without the two parts that depend on the call: its generated identifier and
  the mitigations, which the rule overlay may extend.
\<close>

definition core :: "threat \<Rightarrow> threat" where
  "core th = th\<lparr>t_id := None, mitigations := []\<rparr>"

text \<open>
  The discovery order: the findings of the elements in input order, then the findings of
  the dataflows in input order, each stamped with its subject.
\<close>

definition discovered :: "element list \<Rightarrow> dataflow list \<Rightarrow> threat list" where
  "discovered es dfs =
     concat (map (\<lambda>el. map (stampElement el) (analyzeElement el)) es) @
     concat (map (\<lambda>df. map (stampDataflow df) (analyzeDataflow df)) dfs)"

definition countSeverity :: "severity \<Rightarrow> threat list \<Rightarrow> nat" where
  "countSeverity s ts = length (filter (\<lambda>th. severity th = s) ts)"

definition summaryMatches :: "riskSummary \<Rightarrow> threat list \<Rightarrow> bool" where
  "summaryMatches r ts =
     (critical r = countSeverity Critical ts \<and> high r = countSeverity High ts \<and>
      medium r = countSeverity Medium ts \<and> low r = countSeverity Low ts)"


definition plainTags :: "threat \<Rightarrow> bool" where
  "plainTags th =
     (case stride th of None \<Rightarrow> True | Some cs \<Rightarrow> list_all (\<lambda>c. c \<notin> set inheritedProperties) cs)"

definition knownTags :: "string list option \<Rightarrow> bool" where
  "knownTags tags =
     (case tags of None \<Rightarrow> True | Some cs \<Rightarrow> list_all (\<lambda>c. c \<in> set strideCategories) cs)"

section \<open>Example inputs\<close>

text \<open>
  An untrusted actor, a process and a sensitive HTTP dataflow between them; the same DFD
  as validation leaves it; and a cross-network dataflow over \<open>HTTP\<close> without sensitive
  data.
\<close>

definition scenarioActor :: element where
  "scenarioActor =
     \<lparr>e_id = Some ''u1'', e_name = Some ''User'', e_type = Some ''actor'',
      e_description = None, trustLevel = Some ''untrusted'', isExternalEntity = None,
      isDatastore = None, isProcess = None\<rparr>"

definition scenarioProcess :: element where
  "scenarioProcess =
     \<lparr>e_id = Some ''p1'', e_name = Some ''Web'', e_type = Some ''process'',
      e_description = None, trustLevel = None, isExternalEntity = None,
      isDatastore = None, isProcess = None\<rparr>"

definition scenarioFlow :: dataflow where
  "scenarioFlow =
     \<lparr>df_id = Some ''f1'', df_name = Some ''Login'', df_from = Some ''u1'',
      df_to = Some ''p1'', df_type = None, protocol = Some ''http'',
      hasSensitiveData = Some True, isEncrypted = None, isCrossNetwork = None,
      authentication = None\<rparr>"

definition scenarioDfd :: dfd where
  "scenarioDfd =
     \<lparr>dfd_id = Some ''d1'', dfd_name = Some ''Demo'', dfd_description = None,
      elements = Arr [scenarioActor, scenarioProcess], dataflows = Arr [scenarioFlow],
      trustBoundaries = Nullish\<rparr>"

definition validatedActor :: element where
  "validatedActor = scenarioActor\<lparr>isExternalEntity := Some True\<rparr>"

definition validatedProcess :: element where
  "validatedProcess = scenarioProcess\<lparr>isProcess := Some True\<rparr>"

definition validatedScenario :: dfd where
  "validatedScenario = scenarioDfd\<lparr>elements := Arr [validatedActor, validatedProcess]\<rparr>"

definition scenarioValidation :: validation where
  "scenarioValidation =
     \<lparr>valid = True, errors = [],
      warnings = Some
        [''Dataflow '' @ [CHR 0x27] @ ''Login'' @ [CHR 0x27] @
           '' carries sensitive data but is not encrypted'',
         ''Dataflow '' @ [CHR 0x27] @ ''Login'' @ [CHR 0x27] @
           '' uses unencrypted protocol: http'',
         ''No trust boundaries defined. Consider adding trust boundaries to your DFD''],
      elementCount = Some 2, dataflowCount = Some 1, trustBoundaryCount = Some 0\<rparr>"

definition unencryptedFlow :: dataflow where
  "unencryptedFlow = scenarioFlow\<lparr>df_id := Some ''f2'', isEncrypted := Some False\<rparr>"

definition unencryptedDfd :: dfd where
  "unencryptedDfd = validatedScenario\<lparr>dataflows := Arr [scenarioFlow, unencryptedFlow]\<rparr>"

definition noOptions :: options where
  "noOptions = \<lparr>customRules = None\<rparr>"

definition crossNetworkHttpFlow :: dataflow where
  "crossNetworkHttpFlow =
     \<lparr>df_id = Some ''df1'', df_name = Some ''flow'', df_from = Some ''a'', df_to = Some ''b'',
      df_type = None, protocol = Some ''HTTP'', hasSensitiveData = Some False,
      isEncrypted = None, isCrossNetwork = Some True, authentication = None\<rparr>"

text \<open>
  What \<open>validate\<close> returns for a missing DFD; a DFD whose \<open>elements\<close> property is not
  an array; two findings and their STRIDE breakdown.
\<close>

definition absentValidation :: validation where
  "absentValidation =
     \<lparr>valid = False, errors = [''DFD object is required''], warnings = None,
      elementCount = None, dataflowCount = None, trustBoundaryCount = None\<rparr>"

definition nonArrayElementsDfd :: dfd where
  "nonArrayElementsDfd =
     \<lparr>dfd_id = Some ''d2'', dfd_name = Some ''Broken'', dfd_description = None,
      elements = NonArray, dataflows = Arr [], trustBoundaries = Nullish\<rparr>"

text \<open>
  A DFD whose \<open>dataflows\<close> array holds \<open>null\<close>; a DFD neither of whose
  \<open>elements\<close> and \<open>dataflows\<close> is an array, with what \<open>validate\<close> returns for
  it; a pattern with the baseline Low and a partially trusted actor; and the titles and
  severities of the findings of the scenario in the order of the result.
\<close>

definition nullDataflowDfd :: dfd where
  "nullDataflowDfd = scenarioDfd\<lparr>dataflows := BadEntries 0\<rparr>"

definition noArraysDfd :: dfd where
  "noArraysDfd =
     \<lparr>dfd_id = Some ''d3'', dfd_name = Some ''Empty'', dfd_description = None,
      elements = NonArray, dataflows = Nullish, trustBoundaries = Nullish\<rparr>"

definition noArraysValidation :: validation where
  "noArraysValidation =
     \<lparr>valid = False,
      errors = [''DFD must have at least one element'', ''DFD must have dataflows array''],
      warnings = Some
        [''No trust boundaries defined. Consider adding trust boundaries to your DFD''],
      elementCount = Some 0, dataflowCount = Some 0, trustBoundaryCount = Some 0\<rparr>"

definition lowPattern :: pattern where
  "lowPattern =
     elementPattern ''LOW01'' ''Verbose Banner'' ''Actor sees a version banner''
       ''Information Disclosure'' [''Information Disclosure''] Low ''Low'' [''actor'']
       [''Remove the banner''] None A05"

definition partiallyTrustedActor :: element where
  "partiallyTrustedActor = scenarioActor\<lparr>trustLevel := Some ''partially-trusted''\<rparr>"

definition trustedActor :: element where
  "trustedActor = scenarioActor\<lparr>trustLevel := Some ''trusted''\<rparr>"

definition scenarioOrder :: "(string \<times> severity) list" where
  "scenarioOrder =
     [(''Malicious External Actor'', Critical),
      (''Account Compromise'', Critical),
      (''Input Validation Bypass'', Critical),
      (''Broken Authentication'', Critical),
      (''Eavesdropping'', Critical),
      (''Replay Attack'', Critical),
      (''Denial of Service'', Critical),
      (''Man-in-the-Middle Attack'', Critical),
      (''Data Exposure During Transit'', Critical),
      (''Malicious External Actor'', High),
      (''Privilege Escalation'', High),
      (''Business Logic Bypass'', High),
      (''Privilege Escalation'', High)]"



section \<open>Severity of pattern-derived findings\<close>

text \<open>
  Claim C1 (dataflow findings: sensitive data gives Critical; otherwise a cross-network
  flow raises Low to Medium and any other baseline to at least High, a Critical baseline
  staying Critical; otherwise the baseline). The code does not keep a Critical baseline
  on a cross-network dataflow without sensitive data: the library pattern \<open>DF01\<close> has
  the baseline Critical, it matches the dataflow below, and its finding gets High.
\<close>

theorem cross_network_lowers_critical:
  "baseSeverity DF01 = Critical \<and> matchesDataflow crossNetworkHttpFlow DF01 \<and>
   calculateSeverityForDataflow DF01 crossNetworkHttpFlow = High"
  by (simp add: calculateSeverityForDataflow_def baseSeverity_def matchesDataflow_def DF01_def
      dataflowPattern_def crossNetworkHttpFlow_def)

text \<open>
  Claim C4: the severity of the finding that \<open>analyzeElement\<close> derives from a pattern,
  for every pattern and every element: Critical when the element is untrusted; for a
  partially trusted element the baseline of the pattern with Low raised to Medium and
  every other baseline unchanged; the baseline for any other trust level, a missing one
  included. The baseline is the severity of the pattern, Medium when it has none. Every
  pattern-derived finding of an element is such a finding of a matching pattern of the
  library, so those of an untrusted element are all Critical.
\<close>

theorem pattern_element_severity:
  "severity (elementPatternThreat el pat) =
     (if trustLevel el = Some ''untrusted'' then Critical
      else if trustLevel el = Some ''partially-trusted'' then
        (case p_severity pat of
           None \<Rightarrow> Medium
         | Some Critical \<Rightarrow> Critical
         | Some High \<Rightarrow> High
         | Some Medium \<Rightarrow> Medium
         | Some Low \<Rightarrow> Medium)
      else (case p_severity pat of None \<Rightarrow> Medium | Some s \<Rightarrow> s)) \<and>
   (th \<in> set (elementPatternThreats el) \<longrightarrow>
      (\<exists>pat'. pat' \<in> set (getThreatPatterns (e_type el)) \<and> matchesElement el pat' \<and>
         th = elementPatternThreat el pat')) \<and>
   (trustLevel el = Some ''untrusted'' \<and> th \<in> set (elementPatternThreats el) \<longrightarrow>
      severity th = Critical)"
proof -
  have rule: "severity (elementPatternThreat e p) =
     (if trustLevel e = Some ''untrusted'' then Critical
      else if trustLevel e = Some ''partially-trusted'' then
        (case p_severity p of
           None \<Rightarrow> Medium
         | Some Critical \<Rightarrow> Critical
         | Some High \<Rightarrow> High
         | Some Medium \<Rightarrow> Medium
         | Some Low \<Rightarrow> Medium)
      else (case p_severity p of None \<Rightarrow> Medium | Some s \<Rightarrow> s))" for e p
    by (simp add: elementPatternThreat_def calculateSeverity_def baseSeverity_def
        split: option.splits severity.splits)
  have derived: "\<exists>pat'. pat' \<in> set (getThreatPatterns (e_type el)) \<and> matchesElement el pat' \<and>
         th = elementPatternThreat el pat'" if "th \<in> set (elementPatternThreats el)"
    using that by (auto simp: elementPatternThreats_def)
  have "severity th = Critical"
    if "trustLevel el = Some ''untrusted''" "th \<in> set (elementPatternThreats el)"
  proof -
    from derived [OF that(2)] obtain pat' where "th = elementPatternThreat el pat'"
      by blast
    with rule [of el pat'] that(1) show ?thesis
      by simp
  qed
  with rule [of el pat] derived show ?thesis
    by blast
qed

lemma getThreatPatterns_actor: "getThreatPatterns (Some ''actor'') = [ACT01, ACT02]"
  by (simp add: getThreatPatterns_def typeMap_def threatLibrary_def)

lemma scenarioActor_account_compromise:
  "elementPatternThreat scenarioActor ACT02 \<in> set (elementPatternThreats scenarioActor)"
  by (simp add: elementPatternThreats_def scenarioActor_def getThreatPatterns_actor
      matchesElement_def ACT01_def ACT02_def elementPattern_def)

lemma example_trust_levels:
  "trustLevel scenarioActor = Some ''untrusted''"
  "trustLevel partiallyTrustedActor = Some ''partially-trusted''"
  "trustLevel trustedActor = Some ''trusted''"
  by (simp_all add: scenarioActor_def partiallyTrustedActor_def trustedActor_def)

lemma example_baselines: "p_severity lowPattern = Some Low" "p_severity ACT02 = Some High"
  by (simp_all add: lowPattern_def ACT02_def elementPattern_def)

theorem pattern_element_severity_witness:
  "elementPatternThreat scenarioActor ACT02 \<in> set (elementPatternThreats scenarioActor) \<and>
   severity (elementPatternThreat scenarioActor ACT02) = Critical \<and>
   severity (elementPatternThreat scenarioActor lowPattern) = Critical \<and>
   severity (elementPatternThreat partiallyTrustedActor lowPattern) = Medium \<and>
   severity (elementPatternThreat partiallyTrustedActor ACT02) = High \<and>
   severity (elementPatternThreat trustedActor lowPattern) = Low \<and>
   severity (elementPatternThreat trustedActor ACT02) = High"
proof -
  note m = scenarioActor_account_compromise
  from pattern_element_severity [of scenarioActor ACT02 "elementPatternThreat scenarioActor ACT02"] m
  have "severity (elementPatternThreat scenarioActor ACT02) = Critical"
    by (simp add: example_trust_levels)
  moreover from pattern_element_severity [of scenarioActor lowPattern]
  have "severity (elementPatternThreat scenarioActor lowPattern) = Critical"
    by (simp add: example_trust_levels)
  moreover from pattern_element_severity [of partiallyTrustedActor lowPattern]
  have "severity (elementPatternThreat partiallyTrustedActor lowPattern) = Medium"
    by (simp add: example_trust_levels example_baselines)
  moreover from pattern_element_severity [of partiallyTrustedActor ACT02]
  have "severity (elementPatternThreat partiallyTrustedActor ACT02) = High"
    by (simp add: example_trust_levels example_baselines)
  moreover from pattern_element_severity [of trustedActor lowPattern]
  have "severity (elementPatternThreat trustedActor lowPattern) = Low"
    by (simp add: example_trust_levels example_baselines)
  moreover from pattern_element_severity [of trustedActor ACT02]
  have "severity (elementPatternThreat trustedActor ACT02) = High"
    by (simp add: example_trust_levels example_baselines)
  ultimately show ?thesis
    using m by simp
qed

section \<open>The assembled threat model\<close>

lemma core_severity [simp]: "severity (core th) = severity th"
  by (simp add: core_def)

lemma pushThreat_core:
  "map core (gs_threats (pushThreat u st th)) = map core (gs_threats st) @ [core th]"
  by (simp add: pushThreat_def core_def)

lemma foldl_pushThreat_core:
  "map core (gs_threats (foldl (\<lambda>s th. pushThreat u s (f th)) st ths)) =
   map core (gs_threats st) @ map core (map f ths)"
  by (induction ths arbitrary: st) (simp_all add: pushThreat_core)

lemma foldl_elementStep_core:
  "map core (gs_threats (foldl (elementStep u) st es)) =
   map core (gs_threats st) @
   map core (concat (map (\<lambda>el. map (stampElement el) (analyzeElement el)) es))"
  by (induction es arbitrary: st) (simp_all add: elementStep_def foldl_pushThreat_core)

lemma foldl_dataflowStep_core:
  "map core (gs_threats (foldl (dataflowStep u) st dfs)) =
   map core (gs_threats st) @
   map core (concat (map (\<lambda>df. map (stampDataflow df) (analyzeDataflow df)) dfs))"
  by (induction dfs arbitrary: st) (simp_all add: dataflowStep_def foldl_pushThreat_core)

lemma applyCustomRule_core: "core (applyCustomRule rules th) = core th"
  by (simp add: applyCustomRule_def core_def split: option.splits)

lemma applyCustomRules_core: "map core (applyCustomRules opts ts) = map core ts"
  by (simp add: applyCustomRules_def applyCustomRule_core split: option.splits)

lemma countSeverity_core: "countSeverity s (map core ts) = countSeverity s ts"
  by (induction ts) (simp_all add: countSeverity_def)

lemma countSeverity_total:
  "countSeverity Critical ts + countSeverity High ts + countSeverity Medium ts +
   countSeverity Low ts = length ts"
proof (induction ts)
  case Nil
  show ?case by (simp add: countSeverity_def)
next
  case (Cons th ts)
  then show ?case by (cases "severity th") (simp_all add: countSeverity_def)
qed

lemma countSeverity_sort: "countSeverity s (sortBySeverity ts) = countSeverity s ts"
  by (simp add: countSeverity_def sortBySeverity_def filter_sort)

lemma pushThreat_summary:
  assumes "summaryMatches (gs_riskSummary st) (gs_threats st)"
  shows "summaryMatches (gs_riskSummary (pushThreat u st th)) (gs_threats (pushThreat u st th))"
  using assms by (cases "severity th") (simp_all add: summaryMatches_def countSeverity_def pushThreat_def)

lemma foldl_pushThreat_summary:
  "summaryMatches (gs_riskSummary st) (gs_threats st) \<Longrightarrow>
   summaryMatches (gs_riskSummary (foldl (\<lambda>s th. pushThreat u s (f th)) st ths))
     (gs_threats (foldl (\<lambda>s th. pushThreat u s (f th)) st ths))"
  by (induction ths arbitrary: st) (simp_all add: pushThreat_summary)

lemma foldl_elementStep_summary:
  "summaryMatches (gs_riskSummary st) (gs_threats st) \<Longrightarrow>
   summaryMatches (gs_riskSummary (foldl (elementStep u) st es))
     (gs_threats (foldl (elementStep u) st es))"
  by (induction es arbitrary: st) (simp_all add: elementStep_def foldl_pushThreat_summary)

lemma foldl_dataflowStep_summary:
  "summaryMatches (gs_riskSummary st) (gs_threats st) \<Longrightarrow>
   summaryMatches (gs_riskSummary (foldl (dataflowStep u) st dfs))
     (gs_threats (foldl (dataflowStep u) st dfs))"
  by (induction dfs arbitrary: st) (simp_all add: dataflowStep_def foldl_pushThreat_summary)

lemma initialState_summary: "summaryMatches (gs_riskSummary initialState) (gs_threats initialState)"
  by (simp add: initialState_def summaryMatches_def countSeverity_def)

lemma summaryMatches_core: "summaryMatches r (map core ts) = summaryMatches r ts"
  by (simp add: summaryMatches_def countSeverity_core)

text \<open>What a successful call returns.\<close>

lemma generateThreatModel_result:
  assumes "elements d = Arr es" and "dataflows d = Arr dfs"
  shows "\<exists>tm pre. generateThreatModel u now d opts = Inr tm \<and>
           threats tm = sortBySeverity pre \<and>
           map core pre = map core (discovered es dfs) \<and>
           summaryMatches (tm_riskSummary tm) (threats tm) \<and>
           totalThreats tm = length (threats tm)"
proof -
  define st where "st = foldl (dataflowStep u) (foldl (elementStep u) initialState es) dfs"
  define pre where "pre = applyCustomRules opts (gs_threats st)"
  have c: "map core (gs_threats st) = map core (discovered es dfs)"
    by (simp add: st_def foldl_dataflowStep_core foldl_elementStep_core discovered_def
        initialState_def)
  have s: "summaryMatches (gs_riskSummary st) (gs_threats st)"
    unfolding st_def
    by (intro foldl_dataflowStep_summary foldl_elementStep_summary initialState_summary)
  from s have "summaryMatches (gs_riskSummary st) (map core (gs_threats st))"
    by (simp only: summaryMatches_core)
  then have "summaryMatches (gs_riskSummary st) (map core pre)"
    by (simp only: pre_def applyCustomRules_core)
  then have "summaryMatches (gs_riskSummary st) pre"
    by (simp only: summaryMatches_core)
  then have s': "summaryMatches (gs_riskSummary st) (sortBySeverity pre)"
    by (simp add: summaryMatches_def countSeverity_sort)
  have "generateThreatModel u now d opts =
        Inr \<lparr>tm_id = u (gs_uuids st), dfdId = dfd_id d, dfdName = dfd_name d,
              threats = sortBySeverity pre, totalThreats = length (sortBySeverity pre),
              tm_riskSummary = gs_riskSummary st, createdAt = now, owasp_mapped = True\<rparr>"
    using assms by (simp add: generateThreatModel_def Let_def st_def pre_def)
  moreover have "map core pre = map core (discovered es dfs)"
    using c by (simp add: pre_def applyCustomRules_core)
  ultimately show ?thesis using s' by auto
qed

lemma generateThreatModel_accepts:
  assumes "generateThreatModel u now d opts = Inr tm"
  shows "\<exists>es dfs. elements d = Arr es \<and> dataflows d = Arr dfs"
  using assms by (auto simp: generateThreatModel_def split: jsarray.splits)


section \<open>The example scenario, evaluated\<close>

lemma validatedScenario_elements:
  "elements validatedScenario = Arr [validatedActor, validatedProcess]"
  by (simp add: validatedScenario_def)

lemma validatedScenario_dataflows: "dataflows validatedScenario = Arr [scenarioFlow]"
  by (simp add: validatedScenario_def scenarioDfd_def)

lemma scenario_discovered_length:
  "length (discovered [validatedActor, validatedProcess] [scenarioFlow]) = 13"
  by code_simp

lemma scenario_discovered_critical:
  "countSeverity Critical (discovered [validatedActor, validatedProcess] [scenarioFlow]) = 9"
  by code_simp

lemma sortBySeverity_length: "length (sortBySeverity ts) = length ts"
  by (simp add: sortBySeverity_def)

lemma scenario_generated:
  "\<exists>tm. generateThreatModel u now validatedScenario opts = Inr tm \<and> length (threats tm) = 13"
proof -
  from generateThreatModel_result [OF validatedScenario_elements validatedScenario_dataflows]
  obtain tm pre where r: "generateThreatModel u now validatedScenario opts = Inr tm"
    "threats tm = sortBySeverity pre"
    "map core pre = map core (discovered [validatedActor, validatedProcess] [scenarioFlow])"
    by blast
  have "length pre = length (map core pre)" by simp
  also have "\<dots> = 13" by (simp only: r(3) length_map scenario_discovered_length)
  finally have "length (threats tm) = 13" by (simp add: r(2) sortBySeverity_length)
  with r(1) show ?thesis by blast
qed

text \<open>
  Claim C2: in every threat model that \<open>generateThreatModel\<close> returns, the four counts
  of \<open>riskSummary\<close> add up to \<open>totalThreats\<close>, which is the length of the list of
  findings.
\<close>

theorem riskSummary_totals:
  assumes "generateThreatModel u now d opts = Inr tm"
  shows "critical (tm_riskSummary tm) + high (tm_riskSummary tm) +
         medium (tm_riskSummary tm) + low (tm_riskSummary tm) = totalThreats tm \<and>
         totalThreats tm = length (threats tm)"
proof -
  from generateThreatModel_accepts [OF assms] obtain es dfs where
    "elements d = Arr es" "dataflows d = Arr dfs" by blast
  from generateThreatModel_result [OF this, of u now opts] assms
  have "summaryMatches (tm_riskSummary tm) (threats tm)" "totalThreats tm = length (threats tm)"
    by auto
  then show ?thesis
    using countSeverity_total [of "threats tm"] by (simp add: summaryMatches_def)
qed

theorem riskSummary_totals_witness:
  "\<exists>tm. generateThreatModel showNat ''now'' validatedScenario noOptions = Inr tm \<and>
        critical (tm_riskSummary tm) + high (tm_riskSummary tm) +
        medium (tm_riskSummary tm) + low (tm_riskSummary tm) = 13 \<and>
        totalThreats tm = 13 \<and> length (threats tm) = 13"
proof -
  from scenario_generated [of showNat "''now''" noOptions]
  obtain tm where h: "generateThreatModel showNat ''now'' validatedScenario noOptions = Inr tm"
    and n: "length (threats tm) = 13" by blast
  from riskSummary_totals [OF h] n h show ?thesis by simp
qed

lemma severityOrder_inj: "severityOrder a = severityOrder b \<longleftrightarrow> a = b"
  by (cases a; cases b) simp_all

lemma sortBySeverity_sorted: "sorted (map (\<lambda>th. severityOrder (severity th)) (sortBySeverity ts))"
  by (simp add: sortBySeverity_def)

lemma sortBySeverity_stable:
  "filter (\<lambda>th. severity th = k) (sortBySeverity ts) = filter (\<lambda>th. severity th = k) ts"
proof -
  have "filter (\<lambda>th. severityOrder (severity th) = severityOrder k) (sortBySeverity ts) =
        filter (\<lambda>th. severityOrder (severity th) = severityOrder k) ts"
    unfolding sortBySeverity_def by (rule sort_key_stable)
  then show ?thesis by (simp add: severityOrder_inj)
qed

lemma filter_severity_core:
  "map core (filter (\<lambda>th. severity th = k) ts) = filter (\<lambda>th. severity th = k) (map core ts)"
  by (induction ts) simp_all

lemma rank_literal:
  "(case k of Critical \<Rightarrow> 0 | High \<Rightarrow> 1 | Medium \<Rightarrow> 2 | Low \<Rightarrow> 3) = severityOrder k"
  by (cases k) simp_all

text \<open>A list sorted by rank is its four severity classes, one after the other.\<close>

lemma sorted_by_rank_classes:
  assumes "sorted (map (\<lambda>th. severityOrder (severity th)) ts)"
  shows "ts = filter (\<lambda>th. severity th = Critical) ts @ filter (\<lambda>th. severity th = High) ts @
              filter (\<lambda>th. severity th = Medium) ts @ filter (\<lambda>th. severity th = Low) ts"
  using assms
proof (induction ts)
  case Nil
  show ?case by simp
next
  case (Cons x xs)
  from Cons.prems have later: "\<forall>y \<in> set xs. severityOrder (severity x) \<le> severityOrder (severity y)"
    and tail: "sorted (map (\<lambda>th. severityOrder (severity th)) xs)"
    by simp_all
  note ih = Cons.IH [OF tail]
  show ?case
  proof (cases "severity x")
    case Critical
    with ih show ?thesis by simp
  next
    case High
    with later have "\<forall>y \<in> set xs. severity y \<noteq> Critical"
      by (auto simp: severityOrder_inj [symmetric])
    then have "filter (\<lambda>th. severity th = Critical) xs = []"
      by (simp add: filter_empty_conv)
    with ih High show ?thesis by simp
  next
    case Medium
    with later have "\<forall>y \<in> set xs. severity y \<noteq> Critical \<and> severity y \<noteq> High"
      by (auto simp: severityOrder_inj [symmetric])
    then have "filter (\<lambda>th. severity th = Critical) xs = []"
      "filter (\<lambda>th. severity th = High) xs = []"
      by (simp_all add: filter_empty_conv)
    with ih Medium show ?thesis by simp
  next
    case Low
    with later have "\<forall>y \<in> set xs. severity y \<noteq> Critical \<and> severity y \<noteq> High \<and> severity y \<noteq> Medium"
      by (auto simp: severityOrder_inj [symmetric])
    then have "filter (\<lambda>th. severity th = Critical) xs = []"
      "filter (\<lambda>th. severity th = High) xs = []" "filter (\<lambda>th. severity th = Medium) xs = []"
      by (simp_all add: filter_empty_conv)
    with ih Low show ?thesis by simp
  qed
qed

text \<open>
  Claim C3: the findings of a returned threat model are sorted by non-decreasing severity
  rank, the ranks being Critical 0, High 1, Medium 2 and Low 3: the list is all Critical
  findings, then all High, then all Medium, then all Low ones, and within each severity
  the findings are in their discovery order (elements in input order, then dataflows in
  input order). Findings are compared up to their identifier and their mitigations.
\<close>

theorem findings_sorted_stable:
  assumes "generateThreatModel u now d opts = Inr tm"
    and "elements d = Arr es" and "dataflows d = Arr dfs"
  shows "sorted (map (\<lambda>th. case severity th of
                             Critical \<Rightarrow> (0::nat) | High \<Rightarrow> 1 | Medium \<Rightarrow> 2 | Low \<Rightarrow> 3)
                   (threats tm)) \<and>
         map core (threats tm) =
           filter (\<lambda>th. severity th = Critical) (map core (discovered es dfs)) @
           filter (\<lambda>th. severity th = High) (map core (discovered es dfs)) @
           filter (\<lambda>th. severity th = Medium) (map core (discovered es dfs)) @
           filter (\<lambda>th. severity th = Low) (map core (discovered es dfs)) \<and>
         (\<forall>k. map core (filter (\<lambda>th. severity th = k) (threats tm)) =
               filter (\<lambda>th. severity th = k) (map core (discovered es dfs)))"
proof -
  from generateThreatModel_result [OF assms(2,3), of u now opts] assms(1)
  obtain pre where pre: "threats tm = sortBySeverity pre"
    "map core pre = map core (discovered es dfs)" by auto
  have s: "sorted (map (\<lambda>th. severityOrder (severity th)) (threats tm))"
    by (simp add: pre(1) sortBySeverity_sorted)
  have k: "map core (filter (\<lambda>th. severity th = k) (threats tm)) =
        filter (\<lambda>th. severity th = k) (map core (discovered es dfs))" for k
    by (simp add: pre(1) sortBySeverity_stable filter_severity_core pre(2))
  have "map core (threats tm) =
          map core (filter (\<lambda>th. severity th = Critical) (threats tm) @
                    filter (\<lambda>th. severity th = High) (threats tm) @
                    filter (\<lambda>th. severity th = Medium) (threats tm) @
                    filter (\<lambda>th. severity th = Low) (threats tm))"
    using sorted_by_rank_classes [OF s] by simp
  then have c: "map core (threats tm) =
           filter (\<lambda>th. severity th = Critical) (map core (discovered es dfs)) @
           filter (\<lambda>th. severity th = High) (map core (discovered es dfs)) @
           filter (\<lambda>th. severity th = Medium) (map core (discovered es dfs)) @
           filter (\<lambda>th. severity th = Low) (map core (discovered es dfs))"
    by (simp only: map_append k)
  from s have "sorted (map (\<lambda>th. case severity th of
                             Critical \<Rightarrow> (0::nat) | High \<Rightarrow> 1 | Medium \<Rightarrow> 2 | Low \<Rightarrow> 3)
                   (threats tm))"
    by (simp only: rank_literal)
  with c k show ?thesis by blast
qed

lemma scenario_classes:
  "map (\<lambda>th. (title th, severity th))
     (filter (\<lambda>th. severity th = Critical)
        (map core (discovered [validatedActor, validatedProcess] [scenarioFlow])) @
      filter (\<lambda>th. severity th = High)
        (map core (discovered [validatedActor, validatedProcess] [scenarioFlow])) @
      filter (\<lambda>th. severity th = Medium)
        (map core (discovered [validatedActor, validatedProcess] [scenarioFlow])) @
      filter (\<lambda>th. severity th = Low)
        (map core (discovered [validatedActor, validatedProcess] [scenarioFlow]))) =
   scenarioOrder"
  by code_simp

lemma scenario_discovery_order:
  "map (\<lambda>th. (title th, severity th))
     (discovered [validatedActor, validatedProcess] [scenarioFlow]) =
   [(''Malicious External Actor'', Critical),
    (''Account Compromise'', Critical),
    (''Malicious External Actor'', High),
    (''Input Validation Bypass'', Critical),
    (''Privilege Escalation'', High),
    (''Broken Authentication'', Critical),
    (''Business Logic Bypass'', High),
    (''Privilege Escalation'', High),
    (''Eavesdropping'', Critical),
    (''Replay Attack'', Critical),
    (''Denial of Service'', Critical),
    (''Man-in-the-Middle Attack'', Critical),
    (''Data Exposure During Transit'', Critical)]"
  by code_simp

lemma title_severity_core:
  "map (\<lambda>th. (title th, severity th)) (map core ts) = map (\<lambda>th. (title th, severity th)) ts"
  by (simp add: core_def)

theorem findings_sorted_stable_witness:
  "\<exists>tm. generateThreatModel showNat ''now'' validatedScenario noOptions = Inr tm \<and>
        map (\<lambda>th. (title th, severity th)) (threats tm) =
          [(''Malicious External Actor'', Critical),
           (''Account Compromise'', Critical),
           (''Input Validation Bypass'', Critical),
           (''Broken Authentication'', Critical),
           (''Eavesdropping'', Critical),
           (''Replay Attack'', Critical),
           (''Denial of Service'', Critical),
           (''Man-in-the-Middle Attack'', Critical),
           (''Data Exposure During Transit'', Critical),
           (''Malicious External Actor'', High),
           (''Privilege Escalation'', High),
           (''Business Logic Bypass'', High),
           (''Privilege Escalation'', High)]"
proof -
  from scenario_generated [of showNat "''now''" noOptions]
  obtain tm where h: "generateThreatModel showNat ''now'' validatedScenario noOptions = Inr tm"
    by blast
  from findings_sorted_stable [OF h validatedScenario_elements validatedScenario_dataflows]
  have "map core (threats tm) =
      filter (\<lambda>th. severity th = Critical)
        (map core (discovered [validatedActor, validatedProcess] [scenarioFlow])) @
      filter (\<lambda>th. severity th = High)
        (map core (discovered [validatedActor, validatedProcess] [scenarioFlow])) @
      filter (\<lambda>th. severity th = Medium)
        (map core (discovered [validatedActor, validatedProcess] [scenarioFlow])) @
      filter (\<lambda>th. severity th = Low)
        (map core (discovered [validatedActor, validatedProcess] [scenarioFlow]))"
    by blast
  then have "map (\<lambda>th. (title th, severity th)) (map core (threats tm)) = scenarioOrder"
    by (simp only: scenario_classes)
  then have "map (\<lambda>th. (title th, severity th)) (threats tm) = scenarioOrder"
    by (simp only: title_severity_core)
  with h show ?thesis
    by (auto simp: scenarioOrder_def)
qed

section \<open>Metadata and catalog\<close>

lemma setAdd_set: "set (setAdd s x) = insert x (set s)"
  by (auto simp: setAdd_def)

lemma patternStep_types: "ms_types (patternStep st pat) = ms_types st"
  by (simp add: patternStep_def)

lemma foldl_patternStep_types: "ms_types (foldl patternStep st pats) = ms_types st"
  by (induction pats arbitrary: st) (simp_all add: patternStep_types)

lemma categoryStep_types: "set (ms_types (categoryStep st entry)) = insert (fst entry) (set (ms_types st))"
  by (simp add: categoryStep_def foldl_patternStep_types setAdd_set)

lemma foldl_categoryStep_types:
  "set (ms_types (foldl categoryStep st entries)) = set (ms_types st) \<union> fst ` set entries"
  by (induction entries arbitrary: st) (auto simp: categoryStep_types)

lemma supportedElementTypes_of:
  "set (supportedElementTypes (getLibraryMetadataOf lib)) = fst ` set (patterns lib)"
  by (simp add: getLibraryMetadataOf_def Let_def foldl_categoryStep_types)

text \<open>
  Claim C9: the subject types that the library metadata reports are exactly the keys of
  the \<open>patterns\<close> object of the library.
\<close>

theorem metadata_types_are_library_keys:
  "set (supportedElementTypes getLibraryMetadata) = fst ` set (patterns threatLibrary)"
  unfolding getLibraryMetadata_def by (rule supportedElementTypes_of)

section \<open>Findings of a subject\<close>

lemma core_eq_fields:
  assumes "core a = core b"
  shows "title a = title b" "description a = description b" "category a = category b"
    "stride a = stride b" "severity a = severity b"
    "elementId a = elementId b" "elementName a = elementName b" "elementType a = elementType b"
    "dataflowId a = dataflowId b" "dataflowName a = dataflowName b"
    "dataflowType a = dataflowType b"
proof -
  have "title (core a) = title (core b)" "description (core a) = description (core b)"
    "category (core a) = category (core b)" "stride (core a) = stride (core b)"
    "severity (core a) = severity (core b)"
    "elementId (core a) = elementId (core b)" "elementName (core a) = elementName (core b)"
    "elementType (core a) = elementType (core b)"
    "dataflowId (core a) = dataflowId (core b)" "dataflowName (core a) = dataflowName (core b)"
    "dataflowType (core a) = dataflowType (core b)"
    using assms by simp_all
  then show "title a = title b" "description a = description b" "category a = category b"
    "stride a = stride b" "severity a = severity b"
    "elementId a = elementId b" "elementName a = elementName b" "elementType a = elementType b"
    "dataflowId a = dataflowId b" "dataflowName a = dataflowName b"
    "dataflowType a = dataflowType b"
    by (simp_all add: core_def)
qed

lemma sortBySeverity_set: "set (sortBySeverity ts) = set ts"
  by (simp add: sortBySeverity_def)

text \<open>Every discovered finding is in the returned model, up to identifier and overlay.\<close>

lemma generated_finding:
  assumes "elements d = Arr es" and "dataflows d = Arr dfs"
    and "th \<in> set (discovered es dfs)"
  shows "\<exists>tm. generateThreatModel u now d opts = Inr tm \<and>
           (\<exists>th' \<in> set (threats tm). core th' = core th)"
proof -
  from generateThreatModel_result [OF assms(1,2), of u now opts]
  obtain tm pre where r: "generateThreatModel u now d opts = Inr tm"
    "threats tm = sortBySeverity pre" "map core pre = map core (discovered es dfs)"
    by blast
  have "core th \<in> set (map core (discovered es dfs))"
    using assms(3) by simp
  then have "core th \<in> set (map core pre)"
    by (simp only: r(3))
  then obtain th' where "th' \<in> set pre" "core th' = core th"
    by auto
  then show ?thesis
    using r(1,2) by (auto simp: sortBySeverity_set)
qed

lemma generated_summary:
  assumes "elements d = Arr es" and "dataflows d = Arr dfs"
  shows "\<exists>tm. generateThreatModel u now d opts = Inr tm \<and>
           summaryMatches (tm_riskSummary tm) (discovered es dfs)"
proof -
  from generateThreatModel_result [OF assms, of u now opts]
  obtain tm pre where r: "generateThreatModel u now d opts = Inr tm"
    "threats tm = sortBySeverity pre" "map core pre = map core (discovered es dfs)"
    "summaryMatches (tm_riskSummary tm) (threats tm)"
    by blast
  from r(4) have "summaryMatches (tm_riskSummary tm) pre"
    by (simp add: r(2) summaryMatches_def countSeverity_sort)
  then have "summaryMatches (tm_riskSummary tm) (map core pre)"
    by (simp only: summaryMatches_core)
  then have "summaryMatches (tm_riskSummary tm) (discovered es dfs)"
    by (simp only: r(3) summaryMatches_core)
  with r(1) show ?thesis by blast
qed

lemma dataflow_finding_discovered:
  "df \<in> set dfs \<Longrightarrow> th \<in> set (analyzeDataflow df) \<Longrightarrow>
   stampDataflow df th \<in> set (discovered es dfs)"
  by (auto simp: discovered_def)

lemma element_finding_discovered:
  "el \<in> set es \<Longrightarrow> th \<in> set (analyzeElement el) \<Longrightarrow>
   stampElement el th \<in> set (discovered es dfs)"
  by (auto simp: discovered_def)

lemma dataExposure_analyzed:
  "flag (hasSensitiveData df) \<Longrightarrow> dataExposure \<in> set (analyzeDataflow df)"
  by (simp add: analyzeDataflow_def dataflowCharacteristicThreats_def)

lemma manInTheMiddle_analyzed:
  "isHttp df \<Longrightarrow> manInTheMiddle \<in> set (analyzeDataflow df)"
  by (simp add: analyzeDataflow_def dataflowCharacteristicThreats_def)

lemma stamped_dataExposure:
  "title (stampDataflow df dataExposure) = ''Data Exposure During Transit''"
  "severity (stampDataflow df dataExposure) = Critical"
  "dataflowId (stampDataflow df dataExposure) = df_id df"
  "dataflowName (stampDataflow df dataExposure) = df_name df"
  "dataflowType (stampDataflow df dataExposure) = df_type df"
  by (simp_all add: stampDataflow_def dataExposure_def)

lemma stamped_manInTheMiddle:
  "title (stampDataflow df manInTheMiddle) = ''Man-in-the-Middle Attack''"
  "severity (stampDataflow df manInTheMiddle) = Critical"
  "dataflowId (stampDataflow df manInTheMiddle) = df_id df"
  "dataflowName (stampDataflow df manInTheMiddle) = df_name df"
  "dataflowType (stampDataflow df manInTheMiddle) = df_type df"
  by (simp_all add: stampDataflow_def manInTheMiddle_def)

text \<open>
  Claim C6: every dataflow with \<open>hasSensitiveData == true\<close> (and \<open>isEncrypted == false\<close>;
  the generator does not read \<open>isEncrypted\<close>, so the statement holds for any value of
  it) yields a Critical finding stamped with the id, name and type of that dataflow.
\<close>

theorem sensitive_dataflow_critical_finding:
  assumes "elements d = Arr es" and "dataflows d = Arr dfs" and "df \<in> set dfs"
    and "hasSensitiveData df = Some True"
  shows "\<exists>tm. generateThreatModel u now d opts = Inr tm \<and>
           (\<exists>th \<in> set (threats tm).
              severity th = Critical \<and> title th = ''Data Exposure During Transit'' \<and>
              dataflowId th = df_id df \<and> dataflowName th = df_name df \<and>
              dataflowType th = df_type df)"
proof -
  have "dataExposure \<in> set (analyzeDataflow df)"
    using assms(4) by (simp add: dataExposure_analyzed)
  then have "stampDataflow df dataExposure \<in> set (discovered es dfs)"
    using assms(3) by (rule dataflow_finding_discovered [rotated])
  from generated_finding [OF assms(1,2) this, of u now opts]
  obtain tm th' where r: "generateThreatModel u now d opts = Inr tm" "th' \<in> set (threats tm)"
    "core th' = core (stampDataflow df dataExposure)"
    by blast
  from core_eq_fields [OF r(3)]
  have "severity th' = Critical" "title th' = ''Data Exposure During Transit''"
    "dataflowId th' = df_id df" "dataflowName th' = df_name df" "dataflowType th' = df_type df"
    by (simp_all add: stamped_dataExposure)
  with r(1,2) show ?thesis by blast
qed

lemma unencryptedDfd_elements:
  "elements unencryptedDfd = Arr [validatedActor, validatedProcess]"
  by (simp add: unencryptedDfd_def validatedScenario_def)

lemma unencryptedDfd_dataflows: "dataflows unencryptedDfd = Arr [scenarioFlow, unencryptedFlow]"
  by (simp add: unencryptedDfd_def)

lemma unencryptedFlow_member: "unencryptedFlow \<in> set [scenarioFlow, unencryptedFlow]"
  by simp

lemma unencryptedFlow_sensitive: "hasSensitiveData unencryptedFlow = Some True"
  by (simp add: unencryptedFlow_def scenarioFlow_def)

lemma scenarioFlow_sensitive: "hasSensitiveData scenarioFlow = Some True"
  by (simp add: scenarioFlow_def)

theorem sensitive_dataflow_critical_finding_witness:
  "hasSensitiveData unencryptedFlow = Some True \<and> isEncrypted unencryptedFlow = Some False \<and>
   (\<exists>tm. generateThreatModel showNat ''now'' unencryptedDfd noOptions = Inr tm \<and>
      (\<exists>th \<in> set (threats tm). severity th = Critical \<and> dataflowId th = Some ''f2''))"
proof -
  from sensitive_dataflow_critical_finding [OF unencryptedDfd_elements
      unencryptedDfd_dataflows unencryptedFlow_member unencryptedFlow_sensitive,
      of showNat "''now''" noOptions]
  show ?thesis by (auto simp: unencryptedFlow_def scenarioFlow_def)
qed

section \<open>The shape of the validation result\<close>

lemma validateElement_fst: "fst (validateElement i el st) = markRoles el"
  by (simp add: validateElement_def)

lemma validateElements_fst: "fst (validateElements i es st) = map markRoles es"
proof (induction es arbitrary: i st)
  case Nil
  show ?case by simp
next
  case (Cons a es)
  obtain el' st' where a: "validateElement i a st = (el', st')"
    by (cases "validateElement i a st")
  obtain els' st'' where b: "validateElements (Suc i) es st' = (els', st'')"
    by (cases "validateElements (Suc i) es st'")
  from a validateElement_fst [of i a st] have "el' = markRoles a"
    by simp
  moreover from b Cons.IH [of "Suc i" st'] have "els' = map markRoles es"
    by simp
  ultimately show ?case
    by (simp add: a b)
qed

lemma elementPhase_array:
  assumes "elements d = Arr es"
  shows "\<exists>st. elementPhase d = Inr (Arr (map markRoles es), st)"
proof -
  define st0 where "st0 = \<lparr>vs_errors = topLevelErrors d, vs_warnings = [], vs_ids = {}\<rparr>"
  obtain es' st where v: "validateElements 0 es st0 = (es', st)"
    by (cases "validateElements 0 es st0")
  with validateElements_fst [of 0 es st0] have "es' = map markRoles es"
    by simp
  with v show ?thesis
    using assms by (simp add: elementPhase_def st0_def)
qed

lemma elementPhase_returns:
  assumes "\<not> badEntries (elements d)"
  shows "\<exists>els st. elementPhase d = Inr (els, st) \<and>
           lengthOrZero els = lengthOrZero (elements d) \<and>
           (els = NonArray \<longleftrightarrow> elements d = NonArray) \<and> \<not> badEntries els"
proof (cases "elements d")
  case (Arr es)
  from elementPhase_array [OF this] Arr show ?thesis by auto
next
  case (BadEntries n)
  with assms show ?thesis by simp
qed (simp_all add: elementPhase_def Let_def)

lemma elementPhase_raises: "badEntries (elements d) \<Longrightarrow> elementPhase d = Inl TypeError"
  by (cases "elements d") (simp_all add: elementPhase_def)

lemma dataflowPhase_returns:
  assumes "\<not> badEntries els" and "\<not> badEntries dfl" and "els \<noteq> NonArray \<or> \<not> isArray dfl"
  shows "\<exists>st'. dataflowPhase els dfl st = Inr st'"
  using assms by (cases els; cases dfl) (simp_all add: dataflowPhase_def)

lemma dataflowPhase_raises:
  assumes "badEntries dfl \<or> els = NonArray \<and> isArray dfl"
  shows "dataflowPhase els dfl st = Inl TypeError"
  using assms by (cases els; cases dfl) (simp_all add: dataflowPhase_def)

lemma validate_present:
  assumes "elementPhase d = Inr (els, st1)"
    and "dataflowPhase els (dataflows d) st1 = Inr st"
    and "lengthOrZero els = lengthOrZero (elements d)"
  shows "\<exists>r. validate (Some d) = Inr (r, Some (d\<lparr>elements := els\<rparr>)) \<and>
           valid r = (errors r = []) \<and> warnings r \<noteq> None \<and>
           elementCount r = Some (lengthOrZero (elements d)) \<and>
           dataflowCount r = Some (lengthOrZero (dataflows d)) \<and>
           trustBoundaryCount r = Some (lengthOrZero (trustBoundaries d))"
  using assms by (simp add: validate_def Let_def)

text \<open>The inputs on which \<open>validate\<close> raises.\<close>

lemma validate_raises_iff:
  "validate (Some d) = Inl TypeError \<longleftrightarrow>
     badEntries (elements d) \<or> badEntries (dataflows d) \<or>
     elements d = NonArray \<and> isArray (dataflows d)"
proof (cases "badEntries (elements d)")
  case True
  then show ?thesis
    by (simp add: validate_def elementPhase_raises)
next
  case False
  from elementPhase_returns [OF False] obtain els st1 where
    e: "elementPhase d = Inr (els, st1)" "lengthOrZero els = lengthOrZero (elements d)"
       "els = NonArray \<longleftrightarrow> elements d = NonArray" "\<not> badEntries els"
    by blast
  show ?thesis
  proof (cases "badEntries (dataflows d) \<or> elements d = NonArray \<and> isArray (dataflows d)")
    case True
    with e(3) have "badEntries (dataflows d) \<or> els = NonArray \<and> isArray (dataflows d)"
      by simp
    from dataflowPhase_raises [OF this] True show ?thesis
      by (simp add: validate_def e(1))
  next
    case no: False
    with e(3,4) have "\<exists>st. dataflowPhase els (dataflows d) st1 = Inr st"
      by (intro dataflowPhase_returns) auto
    then obtain st where "dataflowPhase els (dataflows d) st1 = Inr st"
      by blast
    from validate_present [OF e(1) this e(2)] no False show ?thesis
      by auto
  qed
qed

lemma scenario_validate:
  "validate (Some scenarioDfd) = Inr (scenarioValidation, Some validatedScenario)"
  by code_simp

lemma scenario_mitm_discovered:
  "stampDataflow scenarioFlow manInTheMiddle \<in>
     set (discovered [validatedActor, validatedProcess] [scenarioFlow])"
proof -
  have "isHttp scenarioFlow" by code_simp
  then show ?thesis
    by (intro dataflow_finding_discovered manInTheMiddle_analyzed) simp_all
qed

lemma scenario_exposure_discovered:
  "stampDataflow scenarioFlow dataExposure \<in>
     set (discovered [validatedActor, validatedProcess] [scenarioFlow])"
  by (intro dataflow_finding_discovered dataExposure_analyzed)
     (simp_all add: scenarioFlow_sensitive)

text \<open>
  Claim C5 (\<open>validate\<close> never throws and always returns \<open>valid\<close>, \<open>errors\<close>,
  \<open>warnings\<close> and the three counts, also for a missing DFD). For a missing DFD the
  code returns early with \<open>valid\<close> and \<open>errors\<close> only: the result has no
  \<open>warnings\<close> and no counts.
\<close>

theorem validate_absent_reduced_shape:
  "validate None = Inr (absentValidation, None) \<and> warnings absentValidation = None \<and>
   elementCount absentValidation = None \<and> dataflowCount absentValidation = None \<and>
   trustBoundaryCount absentValidation = None"
  by (simp add: validate_def absentValidation_def)

text \<open>
  Claim C5 as amended: for a missing DFD, \<open>validate\<close> does not raise and returns
  \<open>valid == false\<close> and the single error, and nothing else. For a DFD object whose
  scalar properties are strings or booleans, as the schema of the validator declares
  them, or missing, it does not raise and returns all six properties, \<open>valid\<close>
  being true exactly when there is no error, provided that no entry of its
  \<open>elements\<close> or \<open>dataflows\<close> array is \<open>null\<close>, no dataflow has a truthy
  \<open>protocol\<close> that is not a string, and \<open>elements\<close> is an array or missing
  whenever \<open>dataflows\<close> is an array.
\<close>

theorem validate_shape:
  "validate None = Inr (absentValidation, None) \<and>
   (\<not> badEntries (elements d) \<and> \<not> badEntries (dataflows d) \<and>
    (elements d \<noteq> NonArray \<or> \<not> isArray (dataflows d)) \<longrightarrow>
      (\<exists>r d'. validate (Some d) = Inr (r, Some d') \<and>
         valid r = (errors r = []) \<and> warnings r \<noteq> None \<and>
         elementCount r = Some (lengthOrZero (elements d)) \<and>
         dataflowCount r = Some (lengthOrZero (dataflows d)) \<and>
         trustBoundaryCount r = Some (lengthOrZero (trustBoundaries d))))"
proof -
  have "validate None = Inr (absentValidation, None)"
    by (simp add: validate_def absentValidation_def)
  moreover have "\<exists>r d'. validate (Some d) = Inr (r, Some d') \<and>
         valid r = (errors r = []) \<and> warnings r \<noteq> None \<and>
         elementCount r = Some (lengthOrZero (elements d)) \<and>
         dataflowCount r = Some (lengthOrZero (dataflows d)) \<and>
         trustBoundaryCount r = Some (lengthOrZero (trustBoundaries d))"
    if a: "\<not> badEntries (elements d)" "\<not> badEntries (dataflows d)"
      "elements d \<noteq> NonArray \<or> \<not> isArray (dataflows d)"
  proof -
    from elementPhase_returns [OF a(1)] obtain els st1 where
      e: "elementPhase d = Inr (els, st1)" "lengthOrZero els = lengthOrZero (elements d)"
         "els = NonArray \<longleftrightarrow> elements d = NonArray" "\<not> badEntries els"
      by blast
    from a(3) e(3) have "els \<noteq> NonArray \<or> \<not> isArray (dataflows d)"
      by simp
    from dataflowPhase_returns [OF e(4) a(2) this]
    obtain st where "dataflowPhase els (dataflows d) st1 = Inr st"
      by blast
    from validate_present [OF e(1) this e(2)] show ?thesis by blast
  qed
  ultimately show ?thesis by blast
qed

lemma noArrays_validate:
  "validate (Some noArraysDfd) =
   Inr (noArraysValidation, Some (noArraysDfd\<lparr>elements := NonArray\<rparr>))"
  by code_simp

theorem validate_shape_witness:
  "\<not> badEntries (elements scenarioDfd) \<and> \<not> badEntries (dataflows scenarioDfd) \<and>
   elements scenarioDfd \<noteq> NonArray \<and>
   validate (Some scenarioDfd) = Inr (scenarioValidation, Some validatedScenario) \<and>
   valid scenarioValidation \<and> errors scenarioValidation = [] \<and>
   warnings scenarioValidation \<noteq> None \<and> elementCount scenarioValidation = Some 2 \<and>
   dataflowCount scenarioValidation = Some 1 \<and> trustBoundaryCount scenarioValidation = Some 0 \<and>
   elements noArraysDfd = NonArray \<and> \<not> isArray (dataflows noArraysDfd) \<and>
   validate (Some noArraysDfd) =
     Inr (noArraysValidation, Some (noArraysDfd\<lparr>elements := NonArray\<rparr>)) \<and>
   warnings noArraysValidation \<noteq> None \<and> elementCount noArraysValidation = Some 0 \<and>
   dataflowCount noArraysValidation = Some 0 \<and> trustBoundaryCount noArraysValidation = Some 0"
proof -
  have h: "\<not> badEntries (elements scenarioDfd)" "\<not> badEntries (dataflows scenarioDfd)"
    "elements scenarioDfd \<noteq> NonArray"
    by (simp_all add: scenarioDfd_def)
  from validate_shape [of scenarioDfd] h
  obtain r d' where r: "validate (Some scenarioDfd) = Inr (r, Some d')"
    "valid r = (errors r = [])" "warnings r \<noteq> None"
    "elementCount r = Some (lengthOrZero (elements scenarioDfd))"
    "dataflowCount r = Some (lengthOrZero (dataflows scenarioDfd))"
    "trustBoundaryCount r = Some (lengthOrZero (trustBoundaries scenarioDfd))"
    by blast
  from r(1) have "r = scenarioValidation"
    by (simp add: scenario_validate)
  with r(2-6) have s: "valid scenarioValidation = (errors scenarioValidation = [])"
    "warnings scenarioValidation \<noteq> None" "elementCount scenarioValidation = Some 2"
    "dataflowCount scenarioValidation = Some 1" "trustBoundaryCount scenarioValidation = Some 0"
    by (simp_all add: scenarioDfd_def)
  have e: "errors scenarioValidation = []"
    by (simp add: scenarioValidation_def)
  have g: "\<not> badEntries (elements noArraysDfd)" "\<not> badEntries (dataflows noArraysDfd)"
    "elements noArraysDfd = NonArray" "\<not> isArray (dataflows noArraysDfd)"
    by (simp_all add: noArraysDfd_def)
  from validate_shape [of noArraysDfd] g
  obtain r2 d2 where r2: "validate (Some noArraysDfd) = Inr (r2, Some d2)"
    "warnings r2 \<noteq> None"
    "elementCount r2 = Some (lengthOrZero (elements noArraysDfd))"
    "dataflowCount r2 = Some (lengthOrZero (dataflows noArraysDfd))"
    "trustBoundaryCount r2 = Some (lengthOrZero (trustBoundaries noArraysDfd))"
    by blast
  from r2(1) have "r2 = noArraysValidation"
    by (simp add: noArrays_validate)
  with r2(2-5) have n: "warnings noArraysValidation \<noteq> None"
    "elementCount noArraysValidation = Some 0" "dataflowCount noArraysValidation = Some 0"
    "trustBoundaryCount noArraysValidation = Some 0"
    by (simp_all add: noArraysDfd_def)
  from h s e g n show ?thesis
    by (simp add: scenario_validate noArrays_validate)
qed

text \<open>
  The inputs left out raise: \<open>elements\<close> that is neither missing nor an array together
  with a \<open>dataflows\<close> array, where \<open>dfd.elements?.map\<close> is not a function, and an
  array with a \<open>null\<close> entry.
\<close>

lemma validate_non_array_elements_raises: "validate (Some nonArrayElementsDfd) = Inl TypeError"
  by code_simp

lemma validate_null_dataflow_raises: "validate (Some nullDataflowDfd) = Inl TypeError"
  by code_simp

section \<open>Actors are external entities\<close>

lemma markRoles_fields [simp]:
  "e_id (markRoles el) = e_id el" "e_name (markRoles el) = e_name el"
  "e_type (markRoles el) = e_type el" "trustLevel (markRoles el) = trustLevel el"
  by (simp_all add: markRoles_def Let_def)

lemma markRoles_external:
  "e_type el = Some ''actor'' \<or> e_type el = Some ''user'' \<Longrightarrow>
   isExternalEntity (markRoles el) = Some True"
  by (auto simp: markRoles_def Let_def isExternalType_def)

lemma maliciousExternalActor_analyzed:
  "flag (isExternalEntity el) \<Longrightarrow> maliciousExternalActor \<in> set (analyzeElement el)"
  by (simp add: analyzeElement_def elementRoleThreats_def)

text \<open>
  Claim C10: validation sets \<open>isExternalEntity\<close> on every element of type \<open>actor\<close>
  or \<open>user\<close>, and the threat model generated from the validated DFD then holds the
  supplementary finding \<open>Malicious External Actor\<close> (Spoofing, Repudiation; High) for
  each such element.
\<close>

theorem actor_elements_flagged_external:
  assumes "elements d = Arr es" and "dataflows d = Arr dfs" and "el \<in> set es"
    and "e_type el = Some ''actor'' \<or> e_type el = Some ''user''"
  shows "\<exists>r d' tm. validate (Some d) = Inr (r, Some d') \<and>
           elements d' = Arr (map markRoles es) \<and>
           isExternalEntity (markRoles el) = Some True \<and>
           generateThreatModel u now d' opts = Inr tm \<and>
           (\<exists>th \<in> set (threats tm).
              title th = ''Malicious External Actor'' \<and>
              description th = ''External entity may be compromised or act maliciously'' \<and>
              stride th = Some [''Spoofing'', ''Repudiation''] \<and> severity th = High \<and>
              elementId th = e_id el \<and> elementName th = e_name el \<and>
              elementType th = e_type el)"
proof -
  define d' where "d' = d\<lparr>elements := Arr (map markRoles es)\<rparr>"
  have els: "elements d' = Arr (map markRoles es)"
    by (simp add: d'_def)
  have dfs: "dataflows d' = Arr dfs"
    by (simp add: d'_def assms(2))
  from elementPhase_array [OF assms(1)] obtain st1 where
    e: "elementPhase d = Inr (Arr (map markRoles es), st1)"
    by blast
  have "\<exists>st. dataflowPhase (Arr (map markRoles es)) (dataflows d) st1 = Inr st"
    by (intro dataflowPhase_returns) (simp_all add: assms(2))
  then obtain st where "dataflowPhase (Arr (map markRoles es)) (dataflows d) st1 = Inr st"
    by blast
  from validate_present [OF e this] assms(1)
  obtain r where v: "validate (Some d) = Inr (r, Some d')"
    by (auto simp: d'_def)
  have ext: "isExternalEntity (markRoles el) = Some True"
    using assms(4) by (rule markRoles_external)
  then have "maliciousExternalActor \<in> set (analyzeElement (markRoles el))"
    by (simp add: maliciousExternalActor_analyzed)
  moreover have "markRoles el \<in> set (map markRoles es)"
    using assms(3) by simp
  ultimately have "stampElement (markRoles el) maliciousExternalActor \<in>
      set (discovered (map markRoles es) dfs)"
    by (rule element_finding_discovered [rotated])
  from generated_finding [OF els dfs this, of u now opts]
  obtain tm th' where g: "generateThreatModel u now d' opts = Inr tm" "th' \<in> set (threats tm)"
    "core th' = core (stampElement (markRoles el) maliciousExternalActor)"
    by blast
  from core_eq_fields [OF g(3)]
  have "title th' = ''Malicious External Actor''"
    "description th' = ''External entity may be compromised or act maliciously''"
    "stride th' = Some [''Spoofing'', ''Repudiation'']" "severity th' = High"
    "elementId th' = e_id el" "elementName th' = e_name el" "elementType th' = e_type el"
    by (simp_all add: stampElement_def maliciousExternalActor_def)
  with v els ext g(1,2) show ?thesis by blast
qed

theorem actor_elements_flagged_external_witness:
  "e_type scenarioActor = Some ''actor'' \<and> isExternalEntity scenarioActor = None \<and>
   isExternalEntity (markRoles scenarioActor) = Some True \<and>
   (\<exists>tm. validate (Some scenarioDfd) = Inr (scenarioValidation, Some validatedScenario) \<and>
      generateThreatModel showNat ''now'' validatedScenario noOptions = Inr tm \<and>
      (\<exists>th \<in> set (threats tm).
         title th = ''Malicious External Actor'' \<and> severity th = High \<and>
         elementId th = Some ''u1''))"
proof -
  have a: "elements scenarioDfd = Arr [scenarioActor, scenarioProcess]"
    "dataflows scenarioDfd = Arr [scenarioFlow]" "scenarioActor \<in> set [scenarioActor, scenarioProcess]"
    "e_type scenarioActor = Some ''actor'' \<or> e_type scenarioActor = Some ''user''"
    by (simp_all add: scenarioDfd_def scenarioActor_def)
  from actor_elements_flagged_external [OF a, of showNat "''now''" noOptions]
  obtain r d' tm where v: "validate (Some scenarioDfd) = Inr (r, Some d')"
    and f: "isExternalEntity (markRoles scenarioActor) = Some True"
    and g: "generateThreatModel showNat ''now'' d' noOptions = Inr tm"
    and t: "\<exists>th \<in> set (threats tm).
         title th = ''Malicious External Actor'' \<and> severity th = High \<and>
         elementId th = e_id scenarioActor"
    by blast
  from v have "r = scenarioValidation" "d' = validatedScenario"
    by (simp_all add: scenario_validate)
  with v f g t show ?thesis
    by (auto simp: scenarioActor_def)
qed

section \<open>The scenario of the specification\<close>

text \<open>
  Claim C7: for the DFD with an untrusted actor, a process and a sensitive \<open>http\<close>
  dataflow between them, \<open>validate\<close> returns \<open>valid == true\<close> with a warning about
  unencrypted sensitive data; on the validated DFD the generator returns at least three
  findings (thirteen), among them a Critical man-in-the-middle finding and a Critical
  data-exposure finding of the dataflow, and \<open>riskSummary.critical\<close> is at least two
  (nine).
\<close>

theorem scenario_result:
  "validate (Some scenarioDfd) = Inr (scenarioValidation, Some validatedScenario) \<and>
   valid scenarioValidation \<and>
   warnings scenarioValidation = Some
     [''Dataflow '' @ [CHR 0x27] @ ''Login'' @ [CHR 0x27] @
        '' carries sensitive data but is not encrypted'',
      ''Dataflow '' @ [CHR 0x27] @ ''Login'' @ [CHR 0x27] @
        '' uses unencrypted protocol: http'',
      ''No trust boundaries defined. Consider adding trust boundaries to your DFD''] \<and>
   (\<exists>tm. generateThreatModel u now validatedScenario opts = Inr tm \<and>
      3 \<le> length (threats tm) \<and> totalThreats tm = 13 \<and>
      (\<exists>th \<in> set (threats tm).
         title th = ''Man-in-the-Middle Attack'' \<and> severity th = Critical \<and>
         dataflowId th = Some ''f1'' \<and> dataflowName th = Some ''Login'') \<and>
      (\<exists>th \<in> set (threats tm).
         title th = ''Data Exposure During Transit'' \<and> severity th = Critical \<and>
         dataflowId th = Some ''f1'' \<and> dataflowName th = Some ''Login'') \<and>
      2 \<le> critical (tm_riskSummary tm) \<and> critical (tm_riskSummary tm) = 9)"
proof -
  note el = validatedScenario_elements and fl = validatedScenario_dataflows
  from generateThreatModel_result [OF el fl, of u now opts]
  obtain tm pre where r: "generateThreatModel u now validatedScenario opts = Inr tm"
    "totalThreats tm = length (threats tm)"
    by blast
  from scenario_generated [of u now opts] r(1) have n: "length (threats tm) = 13"
    by auto
  from generated_summary [OF el fl, of u now opts] r(1)
  have "critical (tm_riskSummary tm) = 9"
    by (auto simp: summaryMatches_def scenario_discovered_critical)
  moreover from generated_finding [OF el fl scenario_mitm_discovered, of u now opts] r(1)
  obtain m where "m \<in> set (threats tm)"
    "core m = core (stampDataflow scenarioFlow manInTheMiddle)"
    by auto
  then have "\<exists>th \<in> set (threats tm).
         title th = ''Man-in-the-Middle Attack'' \<and> severity th = Critical \<and>
         dataflowId th = Some ''f1'' \<and> dataflowName th = Some ''Login''"
    using core_eq_fields [of m "stampDataflow scenarioFlow manInTheMiddle"]
    by (auto simp: stamped_manInTheMiddle scenarioFlow_def)
  moreover from generated_finding [OF el fl scenario_exposure_discovered, of u now opts] r(1)
  obtain x where "x \<in> set (threats tm)"
    "core x = core (stampDataflow scenarioFlow dataExposure)"
    by auto
  then have "\<exists>th \<in> set (threats tm).
         title th = ''Data Exposure During Transit'' \<and> severity th = Critical \<and>
         dataflowId th = Some ''f1'' \<and> dataflowName th = Some ''Login''"
    using core_eq_fields [of x "stampDataflow scenarioFlow dataExposure"]
    by (auto simp: stamped_dataExposure scenarioFlow_def)
  moreover have "valid scenarioValidation" by (simp add: scenarioValidation_def)
  moreover have "warnings scenarioValidation = Some
     [''Dataflow '' @ [CHR 0x27] @ ''Login'' @ [CHR 0x27] @
        '' carries sensitive data but is not encrypted'',
      ''Dataflow '' @ [CHR 0x27] @ ''Login'' @ [CHR 0x27] @
        '' uses unencrypted protocol: http'',
      ''No trust boundaries defined. Consider adding trust boundaries to your DFD'']"
    by (simp add: scenarioValidation_def)
  ultimately show ?thesis
    using r n scenario_validate by auto
qed

theorem scenario_result_witness:
  "\<exists>tm. generateThreatModel showNat ''now'' validatedScenario noOptions = Inr tm \<and>
      totalThreats tm = 13 \<and> critical (tm_riskSummary tm) = 9"
  using scenario_result [of showNat "''now''" noOptions] by blast

section \<open>The STRIDE breakdown\<close>












lemma pushCategory_returns:
  "c \<notin> set inheritedProperties \<Longrightarrow> \<exists>b'. pushCategory th b c = Inr b'"
  by (simp add: pushCategory_def)

lemma pushCategories_returns:
  "list_all (\<lambda>c. c \<notin> set inheritedProperties) cs \<Longrightarrow> \<exists>b'. pushCategories th b cs = Inr b'"
proof (induction cs arbitrary: b)
  case Nil
  show ?case by simp
next
  case (Cons c cs)
  from Cons.prems obtain b1 where "pushCategory th b c = Inr b1"
    using pushCategory_returns [of c th b] by auto
  moreover from Cons.prems Cons.IH [of b1] obtain b' where "pushCategories th b1 cs = Inr b'"
    by auto
  ultimately show ?case by simp
qed

lemma breakdownLoop_returns:
  "list_all plainTags ths \<Longrightarrow> \<exists>b'. breakdownLoop b ths = Inr b'"
proof (induction ths arbitrary: b)
  case Nil
  show ?case by simp
next
  case (Cons th ths)
  show ?case
  proof (cases "stride th")
    case None
    with Cons show ?thesis by simp
  next
    case (Some cs)
    with Cons.prems have "list_all (\<lambda>c. c \<notin> set inheritedProperties) cs"
      by (simp add: plainTags_def)
    from pushCategories_returns [OF this, of th b]
    obtain b1 where "pushCategories th b cs = Inr b1" by blast
    moreover from Cons.prems Cons.IH [of b1] obtain b' where "breakdownLoop b1 ths = Inr b'"
      by auto
    ultimately show ?thesis
      using Some by simp
  qed
qed





text \<open>
  The findings of a generated threat model carry tags of the six categories only, so
  the breakdown of a generated threat model always returns.
\<close>

lemma library_tags_known:
  "list_all (\<lambda>pat. knownTags (p_stride pat)) (concat (map snd (patterns threatLibrary)))"
  by code_simp

lemma getThreatPatterns_library:
  "set (getThreatPatterns ty) \<subseteq> set (concat (map snd (patterns threatLibrary)))"
proof (cases ty)
  case None
  then show ?thesis by (simp add: getThreatPatterns_def)
next
  case (Some t)
  define m where "m = (case map_of typeMap t of Some m \<Rightarrow> m | None \<Rightarrow> t)"
  show ?thesis
  proof (cases "map_of (patterns threatLibrary) m")
    case None
    with Some show ?thesis by (simp add: getThreatPatterns_def m_def)
  next
    case (Some ps)
    then have "(m, ps) \<in> set (patterns threatLibrary)"
      by (rule map_of_SomeD)
    then have "set ps \<subseteq> set (concat (map snd (patterns threatLibrary)))"
      by force
    with Some \<open>ty = Some t\<close> show ?thesis
      by (simp add: getThreatPatterns_def m_def Let_def)
  qed
qed

lemma pattern_tags_known: "pat \<in> set (getThreatPatterns ty) \<Longrightarrow> knownTags (p_stride pat)"
  using library_tags_known getThreatPatterns_library [of ty]
  by (auto simp: list_all_iff)

lemma fixed_tags_known:
  "knownTags (stride maliciousExternalActor)" "knownTags (stride unauthorizedDataAccess)"
  "knownTags (stride privilegeEscalation)" "knownTags (stride manInTheMiddle)"
  "knownTags (stride dataExposure)"
  by (simp_all add: knownTags_def strideCategories_def maliciousExternalActor_def
      unauthorizedDataAccess_def privilegeEscalation_def manInTheMiddle_def dataExposure_def)

lemma analyzeElement_tags: "th \<in> set (analyzeElement el) \<Longrightarrow> knownTags (stride th)"
  by (auto simp: analyzeElement_def elementPatternThreats_def elementRoleThreats_def
      elementPatternThreat_def fixed_tags_known dest: pattern_tags_known split: if_splits)

lemma analyzeDataflow_tags: "th \<in> set (analyzeDataflow df) \<Longrightarrow> knownTags (stride th)"
  by (auto simp: analyzeDataflow_def dataflowPatternThreats_def dataflowCharacteristicThreats_def
      dataflowPatternThreat_def fixed_tags_known dest: pattern_tags_known split: if_splits)

lemma discovered_tags: "th \<in> set (discovered es dfs) \<Longrightarrow> knownTags (stride th)"
  by (auto simp: discovered_def stampElement_def stampDataflow_def
      dest: analyzeElement_tags analyzeDataflow_tags)

lemma knownTags_plain: "knownTags (stride th) \<Longrightarrow> plainTags th"
proof -
  have "c \<notin> set inheritedProperties" if "c \<in> set strideCategories" for c
    using that by (auto simp: strideCategories_def inheritedProperties_def)
  then show "knownTags (stride th) \<Longrightarrow> plainTags th"
    by (auto simp: knownTags_def plainTags_def list_all_iff split: option.splits)
qed

lemma generated_tags:
  assumes "generateThreatModel u now d opts = Inr tm"
  shows "list_all plainTags (threats tm)"
proof -
  from generateThreatModel_accepts [OF assms] obtain es dfs where
    a: "elements d = Arr es" "dataflows d = Arr dfs" by blast
  from generateThreatModel_result [OF a, of u now opts] assms
  obtain pre where r: "threats tm = sortBySeverity pre"
    "map core pre = map core (discovered es dfs)" by auto
  have "plainTags th" if "th \<in> set (threats tm)" for th
  proof -
    from that have "core th \<in> set (map core pre)"
      by (simp add: r(1) sortBySeverity_set)
    then have "core th \<in> set (map core (discovered es dfs))"
      by (simp only: r(2))
    then obtain th0 where th0: "th0 \<in> set (discovered es dfs)" "core th = core th0"
      by auto
    from core_eq_fields(4) [OF th0(2)] discovered_tags [OF th0(1)]
    show ?thesis by (simp add: knownTags_plain)
  qed
  then show ?thesis by (simp add: list_all_iff)
qed

lemma generated_breakdown_returns:
  assumes "generateThreatModel u now d opts = Inr tm"
  shows "\<exists>b. breakdownBySTRIDE (threats tm) = Inr b"
proof -
  from generated_tags [OF assms] breakdownLoop_returns
  obtain b' where "breakdownLoop (map (\<lambda>c. (c, [])) strideCategories) (threats tm) = Inr b'"
    by blast
  then show ?thesis by (simp add: breakdownBySTRIDE_def)
qed

end
